theory Spec2Isabelle
  imports Main "HOL-Library.AList"
begin

section \<open>Data model of dialogue_generator.py\<close>

text \<open>
  Python strings are modelled as HOL strings; a character stands for a code point
  below 256. Python's unbounded \<open>int\<close> is \<open>int\<close>, an index produced by
  \<open>enumerate\<close> is a \<open>nat\<close>.
\<close>

record GroundTruth =
  tables_from_schema_linking :: "string list"
  golden_sql :: string

record Interaction =
  interaction_id :: string
  speaker :: string
  utterance :: string
  intention :: string
  ground_truths :: GroundTruth

record Experiment =
  experiment_id :: string
  total_expected_interactions :: int
  interactions :: "Interaction list"

text \<open>The exceptions that the modelled code can raise to its caller.\<close>

datatype py_error =
    FileNotFoundError
  | JSONDecodeError
  | KeyError string
  | TypeError
  | AttributeError
  | ValueError
  | OSError
  | ExternalError string

text \<open>
  A value produced by \<open>json.load\<close>. Numbers are kept as integers: in every operation
  used below a float behaves as an integer does (it is no container, it cannot be
  iterated and it has no \<open>get\<close>). A Python \<open>dict\<close> is an association list read
  with \<open>map_of\<close>.
\<close>

datatype json =
    JNull
  | JBool bool
  | JNum int
  | JStr string
  | JArr "json list"
  | JObj "(string \<times> json) list"

text \<open>
  The content of an existing file, as opening it and \<open>json.load\<close> see it: text that
  is not JSON (\<open>JSONDecodeError\<close>), a file whose read raises another exception (bytes
  that are not UTF-8 or an integer literal over the digit limit raise \<open>ValueError\<close>, a
  directory or a file without read permission raises \<open>OSError\<close>), or a parsed
  document. A file system maps a path to the content of the file there; \<open>None\<close> is a
  path at which \<open>os.path.exists\<close> is false. No other process changes the files, and
  a document that was written is read back as it was written.
\<close>

datatype file_content = Invalid | Unreadable py_error | Doc json

type_synonym filesystem = "string \<Rightarrow> file_content option"

text \<open>
  What rewriting a file does (lines 267-268): the file is written; \<open>open(path, 'w')\<close>
  raises, and the file is as before; or the file is opened, which empties it, and
  \<open>json.dump\<close> raises, and what is left is not a JSON document.
\<close>

datatype write_outcome = Written | OpenRaises py_error | DumpRaises py_error

section \<open>String operations\<close>

text \<open>\<open>str.isspace\<close> on the code points below 256.\<close>

definition is_space :: "char \<Rightarrow> bool" where
  "is_space c =
     (let n = (of_char c :: nat)
      in (9 \<le> n \<and> n \<le> 13) \<or> (28 \<le> n \<and> n \<le> 32) \<or> n = 133 \<or> n = 160)"

text \<open>\<open>s.strip()\<close>: leading and trailing whitespace removed.\<close>

definition strip :: "string \<Rightarrow> string" where
  "strip s = rev (dropWhile is_space (rev (dropWhile is_space s)))"

text \<open>\<open>s.rstrip(chars)\<close> for a one-character argument: every trailing \<open>c\<close> removed.\<close>

definition rstrip :: "char \<Rightarrow> string \<Rightarrow> string" where
  "rstrip c s = rev (dropWhile (\<lambda>x. x = c) (rev s))"

text \<open>Line 171: \<open>sql = sql.strip().rstrip(';')\<close>.\<close>

definition prepare_sql :: "string \<Rightarrow> string" where
  "prepare_sql sql = rstrip (CHR '';'') (strip sql)"

text \<open>
  The statement as the specification words it: the stripped text with a single
  trailing terminator removed if there is one.
\<close>

definition spec_prepare_sql :: "string \<Rightarrow> string" where
  "spec_prepare_sql sql =
     (let t = strip sql
      in if t \<noteq> [] \<and> last t = CHR '';'' then butlast t else t)"

text \<open>\<open>sep.join(xs)\<close>.\<close>

fun join :: "string \<Rightarrow> string list \<Rightarrow> string" where
  "join sep [] = []"
| "join sep [x] = x"
| "join sep (x # y # ys) = x @ sep @ join sep (y # ys)"

text \<open>\<open>sub in s\<close> on strings: \<open>sub\<close> occurs in \<open>s\<close> as a contiguous run.\<close>

fun starts_with :: "string \<Rightarrow> string \<Rightarrow> bool" where
  "starts_with [] s = True"
| "starts_with (c # cs) [] = False"
| "starts_with (c # cs) (d # ds) = (c = d \<and> starts_with cs ds)"

fun occurs_in :: "string \<Rightarrow> string \<Rightarrow> bool" where
  "occurs_in sub [] = starts_with sub []"
| "occurs_in sub (c # cs) = (starts_with sub (c # cs) \<or> occurs_in sub cs)"

text \<open>\<open>str(n)\<close> for a natural number: its decimal digits.\<close>

definition digit_char :: "nat \<Rightarrow> char" where
  "digit_char d = char_of (48 + d)"

function str_nat :: "nat \<Rightarrow> string" where
  "str_nat n = (if n < 10 then [digit_char n] else str_nat (n div 10) @ [digit_char (n mod 10)])"
  by pat_completeness auto
termination
  by (relation "measure id") auto

declare str_nat.simps [simp del]

section \<open>Checkpoint store\<close>

text \<open>\<open>key in v\<close> for a value read from JSON and a string key.\<close>

fun py_contains :: "string \<Rightarrow> json \<Rightarrow> py_error + bool" where
  "py_contains k (JObj kvs) = Inr (map_of kvs k \<noteq> None)"
| "py_contains k (JArr xs) = Inr (JStr k \<in> set xs)"
| "py_contains k (JStr s) = Inr (occurs_in k s)"
| "py_contains k JNull = Inl TypeError"
| "py_contains k (JBool b) = Inl TypeError"
| "py_contains k (JNum n) = Inl TypeError"

text \<open>\<open>v[key]\<close> with a string key: only a dict can be subscripted by a string.\<close>

fun py_getitem :: "json \<Rightarrow> string \<Rightarrow> py_error + json" where
  "py_getitem (JObj kvs) k = (case map_of kvs k of None \<Rightarrow> Inl (KeyError k) | Some v \<Rightarrow> Inr v)"
| "py_getitem v k = Inl TypeError"

text \<open>
  The elements a \<open>for\<close> loop over \<open>v\<close> visits: those of a list, the keys of a dict, the
  characters of a string; anything else is not iterable.
\<close>

fun py_iter :: "json \<Rightarrow> py_error + json list" where
  "py_iter (JArr xs) = Inr xs"
| "py_iter (JObj kvs) = Inr (map (\<lambda>kv. JStr (fst kv)) kvs)"
| "py_iter (JStr s) = Inr (map (\<lambda>c. JStr [c]) s)"
| "py_iter v = Inl TypeError"

text \<open>\<open>v.get(key)\<close>: only a dict has \<open>get\<close>; a missing key gives \<open>None\<close>.\<close>

fun py_get :: "json \<Rightarrow> string \<Rightarrow> py_error + json" where
  "py_get (JObj kvs) k = (case map_of kvs k of None \<Rightarrow> Inr JNull | Some v \<Rightarrow> Inr v)"
| "py_get v k = Inl AttributeError"

text \<open>\<open>v.append(x)\<close>: only a list has \<open>append\<close>.\<close>

fun py_append :: "json \<Rightarrow> json \<Rightarrow> py_error + json" where
  "py_append (JArr xs) x = Inr (JArr (xs @ [x]))"
| "py_append v x = Inl AttributeError"

text \<open>
  Lines 221-225: the scan of the dataset. The first element whose \<open>experiment_id\<close>
  equals the given id ends the scan with \<open>True\<close>; an element without \<open>get\<close> that
  is reached before raises.
\<close>

fun scan_dataset :: "json list \<Rightarrow> string \<Rightarrow> py_error + bool" where
  "scan_dataset [] eid = Inr False"
| "scan_dataset (experiment # rest) eid =
     (case py_get experiment ''experiment_id'' of
        Inl e \<Rightarrow> Inl e
      | Inr v \<Rightarrow> if v = JStr eid then Inr True else scan_dataset rest eid)"

text \<open>
  \<open>dialogue_exists_in_dataset\<close> (lines 198-228). The handler catches
  \<open>JSONDecodeError\<close> and \<open>FileNotFoundError\<close> only, so a \<open>TypeError\<close> or an
  \<open>AttributeError\<close> from a document of another shape reaches the caller.
\<close>

definition dialogue_exists_in_dataset :: "filesystem \<Rightarrow> string \<Rightarrow> string \<Rightarrow> py_error + bool" where
  "dialogue_exists_in_dataset fs eid output_file =
     (case fs output_file of
        None \<Rightarrow> Inr False
      | Some Invalid \<Rightarrow> Inr False
      | Some (Unreadable e) \<Rightarrow>
          if e = JSONDecodeError \<or> e = FileNotFoundError then Inr False else Inl e
      | Some (Doc existing_data) \<Rightarrow>
          (case py_contains ''dataset'' existing_data of
             Inl e \<Rightarrow> Inl e
           | Inr False \<Rightarrow> Inr False
           | Inr True \<Rightarrow>
               (case py_getitem existing_data ''dataset'' of
                  Inl e \<Rightarrow> Inl e
                | Inr ds \<Rightarrow>
                    (case py_iter ds of
                       Inl e \<Rightarrow> Inl e
                     | Inr xs \<Rightarrow> scan_dataset xs eid))))"

text \<open>\<open>dialogue.model_dump()\<close>: the experiment as nested dicts and lists.\<close>

definition dump_ground_truth :: "GroundTruth \<Rightarrow> json" where
  "dump_ground_truth g =
     JObj [(''tables_from_schema_linking'', JArr (map JStr (tables_from_schema_linking g))),
           (''golden_sql'', JStr (golden_sql g))]"

definition dump_interaction :: "Interaction \<Rightarrow> json" where
  "dump_interaction x =
     JObj [(''interaction_id'', JStr (interaction_id x)),
           (''speaker'', JStr (speaker x)),
           (''utterance'', JStr (utterance x)),
           (''intention'', JStr (intention x)),
           (''ground_truths'', dump_ground_truth (ground_truths x))]"

definition model_dump :: "Experiment \<Rightarrow> json" where
  "model_dump d =
     JObj [(''experiment_id'', JStr (experiment_id d)),
           (''total_expected_interactions'', JNum (total_expected_interactions d)),
           (''interactions'', JArr (map dump_interaction (interactions d)))]"

text \<open>\<open>{"dataset": []}\<close>.\<close>

definition empty_store :: json where
  "empty_store = JObj [(''dataset'', JArr [])]"

text \<open>
  Lines 246-261: the document that the new dialogue is added to. Only
  \<open>JSONDecodeError\<close> is caught around the read, so a \<open>TypeError\<close> of the membership
  test leaves this block.
\<close>

definition load_existing :: "filesystem \<Rightarrow> string \<Rightarrow> py_error + json" where
  "load_existing fs output_file =
     (case fs output_file of
        None \<Rightarrow> Inr empty_store
      | Some Invalid \<Rightarrow> Inr empty_store
      | Some (Unreadable e) \<Rightarrow> if e = JSONDecodeError then Inr empty_store else Inl e
      | Some (Doc existing_data) \<Rightarrow>
          (case py_contains ''dataset'' existing_data of
             Inl e \<Rightarrow> Inl e
           | Inr True \<Rightarrow> Inr existing_data
           | Inr False \<Rightarrow> Inr empty_store))"

text \<open>
  Line 264: \<open>existing_data["dataset"].append(dialogue_dict)\<close>. The list is changed in
  place, so the document then holds the longer list under the same key.
\<close>

definition append_to_dataset :: "json \<Rightarrow> json \<Rightarrow> py_error + json" where
  "append_to_dataset existing_data dialogue_dict =
     (case py_getitem existing_data ''dataset'' of
        Inl e \<Rightarrow> Inl e
      | Inr ds \<Rightarrow>
          (case py_append ds dialogue_dict of
             Inl e \<Rightarrow> Inl e
           | Inr ds' \<Rightarrow>
               (case existing_data of
                  JObj kvs \<Rightarrow> Inr (JObj (AList.update ''dataset'' ds' kvs))
                | _ \<Rightarrow> Inl TypeError)))"

text \<open>
  The body of the outer \<open>try\<close> of \<open>save_dialogue_to_file\<close> (lines 240-270): the
  exception that leaves it, if any, and the files after it. \<open>wr\<close> tells what
  rewriting a path does at this moment.
\<close>

definition save_attempt :: "(string \<Rightarrow> write_outcome) \<Rightarrow> filesystem \<Rightarrow> Experiment \<Rightarrow> string \<Rightarrow> py_error option \<times> filesystem" where
  "save_attempt wr fs dialogue output_file =
     (case load_existing fs output_file of
        Inl e \<Rightarrow> (Some e, fs)
      | Inr existing_data \<Rightarrow>
          (case append_to_dataset existing_data (model_dump dialogue) of
             Inl e \<Rightarrow> (Some e, fs)
           | Inr new_data \<Rightarrow>
               (case wr output_file of
                  Written \<Rightarrow> (None, fs(output_file \<mapsto> Doc new_data))
                | OpenRaises e \<Rightarrow> (Some e, fs)
                | DumpRaises e \<Rightarrow> (Some e, fs(output_file \<mapsto> Invalid)))))"

text \<open>
  \<open>save_dialogue_to_file\<close> (lines 230-272): \<open>except Exception\<close> prints the error and
  returns, so the caller sees only the files.
\<close>

definition save_dialogue_to_file :: "(string \<Rightarrow> write_outcome) \<Rightarrow> filesystem \<Rightarrow> Experiment \<Rightarrow> string \<Rightarrow> filesystem" where
  "save_dialogue_to_file wr fs dialogue output_file =
     snd (save_attempt wr fs dialogue output_file)"

section \<open>The outside world\<close>

text \<open>
  The language model, the database and the disk are outside the program. Every call to
  the model and to the database is recorded in a trace, and what such a call answers,
  and what writing a file does, is a function of the trace so far and of the call's
  arguments: any sequential behaviour of the three is one choice of these functions.
  \<open>Validated\<close> records what a validation returned; it is not a call, it only marks the
  trace.
\<close>

datatype event =
    LlmCall string
  | DbOpen
  | DbExecute string
  | DbClose
  | Validated bool

text \<open>The five values read from the connection file (lines 147-151).\<close>

record db_settings =
  db_host :: json
  db_port :: json
  db_user :: json
  db_pass :: json
  service_name :: json

text \<open>A join combination: \<open>{"combination_str": ..., "tables": [...]}\<close>.\<close>

record Combination =
  combination_str :: string
  tables :: "string list"

text \<open>
  An example value of a column: a value that \<open>json.dumps\<close> can write and that has no
  \<open>isoformat\<close>, a date or time with the text \<open>str\<close> gives for it, a value that is
  neither, or a list of such values.
\<close>

datatype pyval =
    Plain json
  | Temporal string
  | Opaque
  | PyList "pyval list"

text \<open>
  The fields of a \<open>DialogueGenerator\<close> and the external services it calls.
  \<^item> \<open>format_prompt\<close> is \<open>self.dialogue_generation_prompt.format\<close> with its five
    keyword arguments: the template file is read at construction and is not part of
    the source; a malformed template makes it raise.
  \<^item> \<open>json_dumps\<close> is the text \<open>json.dumps(v, indent=2, ensure_ascii=False)\<close> writes for
    a value it can write.
  \<^item> \<open>llm_invoke\<close> is \<open>self.dialogue_generator.invoke\<close>.
  \<^item> \<open>db_open\<close> is \<open>oracledb.connect\<close> followed by \<open>connection.cursor()\<close>, with the
    settings the user, password and dsn are built from; \<open>db_execute\<close> is
    \<open>cursor.execute(sql)\<close> followed by \<open>cursor.fetchall()\<close>; \<open>db_close\<close> is
    \<open>cursor.close()\<close> followed by \<open>connection.close()\<close>. Each answers \<open>None\<close> when
    it succeeds and \<open>Some\<close> of the text of the exception when it raises.
  \<^item> \<open>file_write\<close> is \<open>open(path, 'w')\<close> followed by \<open>json.dump\<close> into the file.
\<close>

record env =
  join_combination_data :: "Combination list"
  table_ddls_hashmap :: "string \<Rightarrow> string option"
  table_column_values_hashmap :: "string \<Rightarrow> (string \<times> pyval) list option"
  output_file :: string
  database_connection :: string
  format_prompt :: "string \<Rightarrow> string \<Rightarrow> nat \<Rightarrow> string \<Rightarrow> string \<Rightarrow> py_error + string"
  json_dumps :: "json \<Rightarrow> string"
  llm_invoke :: "event list \<Rightarrow> string \<Rightarrow> py_error + Experiment"
  db_open :: "event list \<Rightarrow> db_settings \<Rightarrow> string option"
  db_execute :: "event list \<Rightarrow> string \<Rightarrow> string option"
  db_close :: "event list \<Rightarrow> string option"
  file_write :: "event list \<Rightarrow> string \<Rightarrow> write_outcome"

record world =
  files :: filesystem
  trace :: "event list"

section \<open>Prompt builder\<close>

text \<open>
  What \<open>self.table_column_values_hashmap.get(table, "Column values examples not found")\<close>
  returns: the dict stored for the table, or the fallback, which is a string.
\<close>

datatype examples = ExamplesDict "(string \<times> pyval) list" | ExamplesStr string

definition get_examples :: "env \<Rightarrow> string \<Rightarrow> examples" where
  "get_examples env table =
     (case table_column_values_hashmap env table of
        Some d \<Rightarrow> ExamplesDict d
      | None \<Rightarrow> ExamplesStr ''Column values examples not found'')"

text \<open>\<open>column_values_examples.items()\<close>: a string has no \<open>items\<close>.\<close>

fun py_items :: "examples \<Rightarrow> py_error + (string \<times> pyval) list" where
  "py_items (ExamplesDict kvs) = Inr kvs"
| "py_items (ExamplesStr s) = Inl AttributeError"

text \<open>\<open>str(item) if hasattr(item, 'isoformat') else item\<close>.\<close>

fun process_item :: "pyval \<Rightarrow> pyval" where
  "process_item (Temporal s) = Plain (JStr s)"
| "process_item v = v"

text \<open>Lines 78-81: the items of a list are converted, one level deep.\<close>

fun process_value :: "pyval \<Rightarrow> pyval" where
  "process_value (PyList vs) = PyList (map process_item vs)"
| "process_value v = process_item v"

text \<open>
  The JSON value that \<open>json.dumps\<close> writes for a Python value; a value it cannot
  write raises \<open>TypeError\<close>.
\<close>

fun to_json :: "pyval \<Rightarrow> py_error + json"
  and to_json_list :: "pyval list \<Rightarrow> py_error + json list" where
  "to_json (Plain j) = Inr j"
| "to_json (Temporal s) = Inl TypeError"
| "to_json Opaque = Inl TypeError"
| "to_json (PyList vs) = (case to_json_list vs of Inl e \<Rightarrow> Inl e | Inr js \<Rightarrow> Inr (JArr js))"
| "to_json_list [] = Inr []"
| "to_json_list (v # vs) =
     (case to_json v of
        Inl e \<Rightarrow> Inl e
      | Inr j \<Rightarrow> (case to_json_list vs of Inl e \<Rightarrow> Inl e | Inr js \<Rightarrow> Inr (j # js)))"

fun dump_items :: "(string \<times> pyval) list \<Rightarrow> py_error + (string \<times> json) list" where
  "dump_items [] = Inr []"
| "dump_items ((k, v) # kvs) =
     (case to_json v of
        Inl e \<Rightarrow> Inl e
      | Inr j \<Rightarrow> (case dump_items kvs of Inl e \<Rightarrow> Inl e | Inr js \<Rightarrow> Inr ((k, j) # js)))"

definition nl :: string where
  "nl = [CHR 0x0A]"

text \<open>Lines 72-85: the block of one table.\<close>

definition table_block :: "env \<Rightarrow> string \<Rightarrow> py_error + string" where
  "table_block env table =
     (let ddl_text = (case table_ddls_hashmap env table of Some d \<Rightarrow> d | None \<Rightarrow> ''DDL not found'');
          column_values_examples = get_examples env table
      in case py_items column_values_examples of
           Inl e \<Rightarrow> Inl e
         | Inr items \<Rightarrow>
             (let processed_examples = map (\<lambda>kv. (fst kv, process_value (snd kv))) items
              in case dump_items processed_examples of
                   Inl e \<Rightarrow> Inl e
                 | Inr js \<Rightarrow>
                     Inr (''Table: '' @ table @ nl @ ''DDL:'' @ nl @ ddl_text @ nl
                          @ ''Column values examples:'' @ nl @ json_dumps env (JObj js) @ nl)))"

text \<open>Lines 69-85: the loop over the tables, adding each block to \<open>tables_context\<close>.\<close>

fun build_tables_context :: "env \<Rightarrow> string list \<Rightarrow> string \<Rightarrow> py_error + string" where
  "build_tables_context env [] tables_context = Inr tables_context"
| "build_tables_context env (table # rest) tables_context =
     (case table_block env table of
        Inl e \<Rightarrow> Inl e
      | Inr block \<Rightarrow> build_tables_context env rest (tables_context @ block))"

text \<open>\<open>create_prompt_from_join_combination_data\<close> (lines 44-95).\<close>

definition create_prompt_from_join_combination_data :: "env \<Rightarrow> nat \<Rightarrow> Combination \<Rightarrow> py_error + string" where
  "create_prompt_from_join_combination_data env i c =
     (let experiment_id = str_nat (i + 1);
          join_str = combination_str c;
          tables_involved = tables c;
          joins_len = card (set tables_involved)
      in case build_tables_context env tables_involved [] of
           Inl e \<Rightarrow> Inl e
         | Inr tables_context \<Rightarrow>
             format_prompt env experiment_id join_str joins_len tables_context
               (join '', '' tables_involved))"

section \<open>Validator\<close>

text \<open>Lines 144-151: the connection file is read and its five keys are looked up.\<close>

definition load_db_config :: "filesystem \<Rightarrow> string \<Rightarrow> py_error + db_settings" where
  "load_db_config fs path =
     (case fs path of
        None \<Rightarrow> Inl FileNotFoundError
      | Some Invalid \<Rightarrow> Inl JSONDecodeError
      | Some (Unreadable e) \<Rightarrow> Inl e
      | Some (Doc db_config) \<Rightarrow>
          (case py_getitem db_config ''DB_HOST'' of Inl e \<Rightarrow> Inl e | Inr h \<Rightarrow>
          (case py_getitem db_config ''DB_PORT'' of Inl e \<Rightarrow> Inl e | Inr p \<Rightarrow>
          (case py_getitem db_config ''DB_USER_NAME'' of Inl e \<Rightarrow> Inl e | Inr u \<Rightarrow>
          (case py_getitem db_config ''DB_PASS'' of Inl e \<Rightarrow> Inl e | Inr pw \<Rightarrow>
          (case py_getitem db_config ''SERVICE_NAME'' of Inl e \<Rightarrow> Inl e | Inr sn \<Rightarrow>
             Inr \<lparr>db_host = h, db_port = p, db_user = u, db_pass = pw, service_name = sn\<rparr>))))))"

text \<open>Line 177: the line reported for a statement that raised.\<close>

definition error_line :: "string \<Rightarrow> string \<Rightarrow> string \<Rightarrow> string" where
  "error_line iid sql cause =
     ''Interaction '' @ iid @ '', SQL: '' @ [CHR 0x27] @ sql @ [CHR 0x27] @ '' - Error: '' @ cause"

text \<open>
  Lines 167-179: every interaction's statement is executed; a statement that raises
  adds its line to \<open>sql_errors\<close> and the loop goes on.
\<close>

fun check_interactions :: "env \<Rightarrow> event list \<Rightarrow> Interaction list \<Rightarrow> string list \<Rightarrow> string list \<times> event list" where
  "check_interactions env tr [] sql_errors = (sql_errors, tr)"
| "check_interactions env tr (interaction # rest) sql_errors =
     (let sql = prepare_sql (golden_sql (ground_truths interaction))
      in case db_execute env tr sql of
           None \<Rightarrow> check_interactions env (tr @ [DbExecute sql]) rest sql_errors
         | Some cause \<Rightarrow>
             check_interactions env (tr @ [DbExecute sql]) rest
               (sql_errors @ [error_line (interaction_id interaction) sql cause]))"

definition feedback_preamble :: string where
  "feedback_preamble =
     nl @ nl @ ''# Feedback: '' @ nl
     @ ''The groundtruths SQLs that you generated gave me the following errors, try again but attention to the errors:''
     @ nl"

definition feedback_trailer :: string where
  "feedback_trailer =
     nl @ ''Do it again fixing it please and you can maintain the same structure of everything except wrong SQLs.''"

definition connection_error :: "string \<Rightarrow> string" where
  "connection_error cause = ''Error connecting to the database: '' @ cause"

text \<open>
  Lines 157-196, once the settings are loaded. An exception of the connection, of the
  cursor or of the two \<open>close\<close> calls reaches the outer handler.
\<close>

definition validate_with :: "env \<Rightarrow> event list \<Rightarrow> db_settings \<Rightarrow> Experiment \<Rightarrow> (bool \<times> string) \<times> event list" where
  "validate_with env tr cfg dialogue =
     (case db_open env tr cfg of
        Some cause \<Rightarrow> ((False, connection_error cause), tr @ [DbOpen])
      | None \<Rightarrow>
          (case check_interactions env (tr @ [DbOpen]) (interactions dialogue) [] of
             (sql_errors, tr1) \<Rightarrow>
               (case db_close env tr1 of
                  Some cause \<Rightarrow> ((False, connection_error cause), tr1 @ [DbClose])
                | None \<Rightarrow>
                    if sql_errors = [] then ((True, []), tr1 @ [DbClose])
                    else ((False, feedback_preamble @ join nl sql_errors @ feedback_trailer),
                          tr1 @ [DbClose]))))"

text \<open>
  \<open>check_dialogue_sintax\<close> (lines 131-196). The settings are loaded before the
  \<open>try\<close>, so an exception there is raised to the caller.
\<close>

definition check_dialogue_sintax :: "env \<Rightarrow> filesystem \<Rightarrow> event list \<Rightarrow> Experiment \<Rightarrow> (py_error + bool \<times> string) \<times> event list" where
  "check_dialogue_sintax env fs tr dialogue =
     (case load_db_config fs (database_connection env) of
        Inl e \<Rightarrow> (Inl e, tr)
      | Inr cfg \<Rightarrow>
          (case validate_with env tr cfg dialogue of
             (r, tr') \<Rightarrow> (Inr r, tr' @ [Validated (fst r)])))"

section \<open>Generator loop\<close>

text \<open>\<open>generate_dialogue\<close> (lines 97-98).\<close>

definition generate_dialogue :: "env \<Rightarrow> world \<Rightarrow> string \<Rightarrow> (py_error + Experiment) \<times> world" where
  "generate_dialogue env w prompt =
     (llm_invoke env (trace w) prompt, w\<lparr>trace := trace w @ [LlmCall prompt]\<rparr>)"

text \<open>
  Lines 118-123: the retry loop. It returns the last candidate with the result of its
  validation.
\<close>

function retry_loop :: "env \<Rightarrow> world \<Rightarrow> string \<Rightarrow> Experiment \<Rightarrow> bool \<Rightarrow> string \<Rightarrow> nat \<Rightarrow> (py_error + Experiment \<times> bool) \<times> world" where
  "retry_loop env w prompt dialogue is_valid feedback retries =
     (if \<not> is_valid \<and> retries < 3 then
        (case generate_dialogue env w (prompt @ feedback) of
           (Inl e, w1) \<Rightarrow> (Inl e, w1)
         | (Inr dialogue', w1) \<Rightarrow>
             (case check_dialogue_sintax env (files w1) (trace w1) dialogue' of
                (Inl e, tr2) \<Rightarrow> (Inl e, w1\<lparr>trace := tr2\<rparr>)
              | (Inr (is_valid', feedback'), tr2) \<Rightarrow>
                  retry_loop env (w1\<lparr>trace := tr2\<rparr>) prompt dialogue' is_valid' feedback' (retries + 1)))
      else (Inr (dialogue, is_valid), w))"
  by pat_completeness auto
termination
  by (relation "measure (\<lambda>(env, w, prompt, dialogue, is_valid, feedback, retries). 3 - retries)") auto

declare retry_loop.simps [simp del]

text \<open>
  Lines 110-128, for a combination that is not skipped: the prompt, the first
  candidate, the retries, the save of a valid candidate. The result is the candidate
  that is appended to \<open>dialogues\<close>.
\<close>

definition generate_and_validate :: "env \<Rightarrow> world \<Rightarrow> nat \<Rightarrow> Combination \<Rightarrow> (py_error + Experiment) \<times> world" where
  "generate_and_validate env w i c =
     (case create_prompt_from_join_combination_data env i c of
        Inl e \<Rightarrow> (Inl e, w)
      | Inr prompt \<Rightarrow>
          (case generate_dialogue env w prompt of
             (Inl e, w1) \<Rightarrow> (Inl e, w1)
           | (Inr dialogue, w1) \<Rightarrow>
               (case check_dialogue_sintax env (files w1) (trace w1) dialogue of
                  (Inl e, tr2) \<Rightarrow> (Inl e, w1\<lparr>trace := tr2\<rparr>)
                | (Inr (is_valid, feedback), tr2) \<Rightarrow>
                    (case retry_loop env (w1\<lparr>trace := tr2\<rparr>) prompt dialogue is_valid feedback 0 of
                       (Inl e, w3) \<Rightarrow> (Inl e, w3)
                     | (Inr (final, valid), w3) \<Rightarrow>
                         (Inr final,
                          if valid
                          then w3\<lparr>files := save_dialogue_to_file (file_write env (trace w3)) (files w3) final (output_file env)\<rparr>
                          else w3)))))"

text \<open>
  Lines 103-128: the body of the loop for the combination at index \<open>i\<close>. \<open>None\<close> is
  the \<open>continue\<close> of a skipped combination.
\<close>

definition process_combination :: "env \<Rightarrow> world \<Rightarrow> nat \<Rightarrow> Combination \<Rightarrow> (py_error + Experiment option) \<times> world" where
  "process_combination env w i c =
     (case dialogue_exists_in_dataset (files w) (str_nat (i + 1)) (output_file env) of
        Inl e \<Rightarrow> (Inl e, w)
      | Inr True \<Rightarrow> (Inr None, w)
      | Inr False \<Rightarrow>
          (case generate_and_validate env w i c of
             (Inl e, w') \<Rightarrow> (Inl e, w')
           | (Inr dialogue, w') \<Rightarrow> (Inr (Some dialogue), w')))"

text \<open>The \<open>for\<close> loop over \<open>enumerate(self.join_combination_data)\<close>, from index \<open>i\<close>.\<close>

fun dataset_loop :: "env \<Rightarrow> world \<Rightarrow> nat \<Rightarrow> Combination list \<Rightarrow> Experiment list \<Rightarrow> (py_error + Experiment list) \<times> world" where
  "dataset_loop env w i [] dialogues = (Inr dialogues, w)"
| "dataset_loop env w i (c # cs) dialogues =
     (case process_combination env w i c of
        (Inl e, w') \<Rightarrow> (Inl e, w')
      | (Inr None, w') \<Rightarrow> dataset_loop env w' (i + 1) cs dialogues
      | (Inr (Some dialogue), w') \<Rightarrow> dataset_loop env w' (i + 1) cs (dialogues @ [dialogue]))"


section \<open>Reading a trace\<close>

text \<open>The statements passed to the database, in order.\<close>

fun executed :: "event list \<Rightarrow> string list" where
  "executed [] = []"
| "executed (DbExecute s # es) = s # executed es"
| "executed (e # es) = executed es"

text \<open>The prompts passed to the model, in order.\<close>

fun llm_calls :: "event list \<Rightarrow> string list" where
  "llm_calls [] = []"
| "llm_calls (LlmCall p # es) = p # llm_calls es"
| "llm_calls (e # es) = llm_calls es"

text \<open>
  In a trace that satisfies \<open>well_paced\<close>, every call of the model that has an event
  before it comes right after a validation that returned invalid.
\<close>

fun well_paced :: "event list \<Rightarrow> bool" where
  "well_paced [] = True"
| "well_paced [e] = True"
| "well_paced (e # LlmCall p # es) = (e = Validated False \<and> well_paced (LlmCall p # es))"
| "well_paced (e # e' # es) = well_paced (e' # es)"

section \<open>Well-formed checkpoint documents\<close>

fun is_object :: "json \<Rightarrow> bool" where
  "is_object (JObj kvs) = True"
| "is_object v = False"

text \<open>
  The checkpoint files that \<open>save_dialogue_to_file\<close> can extend and
  \<open>dialogue_exists_in_dataset\<close> can scan to the end: no file, text that is not JSON, a
  document in which the membership test finds no \<open>dataset\<close>, or a dict whose
  \<open>dataset\<close> is a list of dicts.
\<close>

definition store_ok :: "file_content option \<Rightarrow> bool" where
  "store_ok f =
     (case f of
        None \<Rightarrow> True
      | Some Invalid \<Rightarrow> True
      | Some (Unreadable e) \<Rightarrow> False
      | Some (Doc d) \<Rightarrow>
          (case py_contains ''dataset'' d of
             Inl e \<Rightarrow> False
           | Inr False \<Rightarrow> True
           | Inr True \<Rightarrow>
               (case py_getitem d ''dataset'' of
                  Inr (JArr xs) \<Rightarrow> list_all is_object xs
                | _ \<Rightarrow> False)))"

text \<open>
  The elements of the dataset of a checkpoint file: those of the list stored under
  \<open>dataset\<close>, none when there is no such list.
\<close>

definition stored :: "file_content option \<Rightarrow> json list" where
  "stored f =
     (case f of
        Some (Doc d) \<Rightarrow>
          (case py_contains ''dataset'' d of
             Inr True \<Rightarrow> (case py_getitem d ''dataset'' of Inr (JArr xs) \<Rightarrow> xs | _ \<Rightarrow> [])
           | _ \<Rightarrow> [])
      | _ \<Rightarrow> [])"

text \<open>The number of elements of the dataset whose \<open>experiment_id\<close> is the given id.\<close>

definition id_count :: "file_content option \<Rightarrow> string \<Rightarrow> nat" where
  "id_count f eid = length (filter (\<lambda>x. py_get x ''experiment_id'' = Inr (JStr eid)) (stored f))"

section \<open>What the validator is told\<close>

text \<open>The keys read from the connection file, in the order of lines 147-151.\<close>

definition required_keys :: "string list" where
  "required_keys = [''DB_HOST'', ''DB_PORT'', ''DB_USER_NAME'', ''DB_PASS'', ''SERVICE_NAME'']"

text \<open>
  The interactions whose statement the database rejects, each with the text of the
  error, when the statements of the interactions are executed in order from the trace
  \<open>tr\<close>; and the line reported for such an interaction.
\<close>

fun failures :: "env \<Rightarrow> event list \<Rightarrow> Interaction list \<Rightarrow> (Interaction \<times> string) list" where
  "failures env tr [] = []"
| "failures env tr (x # xs) =
     (let sql = prepare_sql (golden_sql (ground_truths x))
      in (case db_execute env tr sql of None \<Rightarrow> [] | Some cause \<Rightarrow> [(x, cause)])
         @ failures env (tr @ [DbExecute sql]) xs)"

definition line_of :: "Interaction \<times> string \<Rightarrow> string" where
  "line_of f = error_line (interaction_id (fst f)) (prepare_sql (golden_sql (ground_truths (fst f)))) (snd f)"

section \<open>The iterations of a run\<close>


text \<open>
  Whether the existence check of an iteration finds the id of its combination, and the
  experiments the iteration adds to the returned list.
\<close>

definition found :: "env \<Rightarrow> nat \<times> Combination \<times> world \<Rightarrow> bool" where
  "found env it =
     (case it of (i, c, w) \<Rightarrow>
        dialogue_exists_in_dataset (files w) (str_nat (i + 1)) (output_file env) = Inr True)"


section \<open>Example data\<close>

text \<open>A connection file with the five keys, and a file system that holds only it.\<close>

definition config_doc :: json where
  "config_doc =
     JObj [(''DB_HOST'', JStr ''localhost''), (''DB_PORT'', JNum 1521),
           (''DB_USER_NAME'', JStr ''mondial''), (''DB_PASS'', JStr ''secret''),
           (''SERVICE_NAME'', JStr ''XEPDB1'')]"

definition config_settings :: db_settings where
  "config_settings =
     \<lparr>db_host = JStr ''localhost'', db_port = JNum 1521, db_user = JStr ''mondial'',
      db_pass = JStr ''secret'', service_name = JStr ''XEPDB1''\<rparr>"

definition config_only :: filesystem where
  "config_only = (\<lambda>p. if p = ''db.json'' then Some (Doc config_doc) else None)"

text \<open>A dialogue of one interaction with the given id and statement.\<close>

definition one_turn :: "string \<Rightarrow> string \<Rightarrow> Experiment" where
  "one_turn eid sql =
     \<lparr>experiment_id = eid, total_expected_interactions = 1,
      interactions =
        [\<lparr>interaction_id = ''1'', speaker = ''User'', utterance = ''Which countries are there?'',
          intention = ''List the countries'',
          ground_truths = \<lparr>tables_from_schema_linking = [''country''], golden_sql = sql\<rparr>\<rparr>]\<rparr>"

text \<open>The combination of the generator below.\<close>

definition example_combination :: Combination where
  "example_combination = \<lparr>combination_str = ''country JOIN city'', tables = [''country'', ''city'']\<rparr>"

text \<open>
  A generator over one combination. The database accepts \<open>SELECT 1\<close> and rejects every
  other statement; the connection opens and closes; every file can be written; the model
  answers its first call with a statement the database rejects and every later call
  with \<open>SELECT 1;\<close>.
\<close>

definition example_env :: env where
  "example_env =
     \<lparr>join_combination_data = [example_combination],
      table_ddls_hashmap = (\<lambda>t. if t = ''country'' then Some ''CREATE TABLE country (name VARCHAR2(50))'' else None),
      table_column_values_hashmap =
        (\<lambda>t. if t = ''country'' then Some [(''name'', PyList [Plain (JStr ''Peru'')])]
              else if t = ''city'' then Some [(''founded'', Temporal ''1535-01-18'')]
              else None),
      output_file = ''out.json'',
      database_connection = ''db.json'',
      format_prompt = (\<lambda>eid join_str joins_len tables_context tables_involved.
                         Inr (''Experiment '' @ eid @ '': '' @ tables_involved)),
      json_dumps = (\<lambda>j. ''{}''),
      llm_invoke = (\<lambda>tr prompt. if llm_calls tr = [] then Inr (one_turn ''1'' ''SELEC 1'')
                                   else Inr (one_turn ''1'' ''SELECT 1;'')),
      db_open = (\<lambda>tr cfg. None),
      db_execute = (\<lambda>tr sql. if sql = ''SELECT 1'' then None else Some ''ORA-00900: invalid SQL statement''),
      db_close = (\<lambda>tr. None),
      file_write = (\<lambda>tr path. Written)\<rparr>"

text \<open>A checkpoint file \<open>{"dataset": {}}\<close>: valid JSON whose dataset is not a list.\<close>

definition broken_store :: filesystem where
  "broken_store = (\<lambda>p. if p = ''out.json'' then Some (Doc (JObj [(''dataset'', JObj [])])) else None)"

text \<open>A dialogue of two interactions: the first statement is misspelt, the second is fine.\<close>

definition two_turns :: Experiment where
  "two_turns =
     \<lparr>experiment_id = ''1'', total_expected_interactions = 2,
      interactions =
        [\<lparr>interaction_id = ''1'', speaker = ''User'', utterance = ''Which countries are there?'',
          intention = ''List the countries'',
          ground_truths = \<lparr>tables_from_schema_linking = [''country''], golden_sql = ''SELEC 1''\<rparr>\<rparr>,
         \<lparr>interaction_id = ''2'', speaker = ''User'', utterance = ''And how many?'',
          intention = ''Count the countries'',
          ground_truths = \<lparr>tables_from_schema_linking = [''country''], golden_sql = ''SELECT 1;''\<rparr>\<rparr>]\<rparr>"

text \<open>The same generator with a database that refuses every connection.\<close>

definition no_listener :: env where
  "no_listener = example_env\<lparr>db_open := (\<lambda>tr cfg. Some ''DPY-6005: cannot connect to database'')\<rparr>"

text \<open>The same generator with a database whose connection cannot be closed.\<close>

definition closing_fails :: env where
  "closing_fails = example_env\<lparr>db_close := (\<lambda>tr. Some ''DPY-1001: not connected to database'')\<rparr>"

text \<open>Connection files that cannot be used: one lacks three keys, one is not JSON.\<close>

definition missing_key_config :: filesystem where
  "missing_key_config =
     (\<lambda>p. if p = ''db.json'' then Some (Doc (JObj [(''DB_HOST'', JStr ''localhost''), (''DB_PORT'', JNum 1521)])) else None)"

definition invalid_config :: filesystem where
  "invalid_config = (\<lambda>p. if p = ''db.json'' then Some Invalid else None)"

text \<open>A combination over a table, \<open>river\<close>, that neither lookup of \<open>example_env\<close> knows.\<close>

definition river_combination :: Combination where
  "river_combination = \<lparr>combination_str = ''country JOIN river'', tables = [''country'', ''river'']\<rparr>"

text \<open>
  The run of \<open>example_env\<close> on its combination: the prompt, the feedback for the
  statement the database rejects, and the trace of the two calls of the model.
\<close>

definition example_prompt :: string where
  "example_prompt = ''Experiment 1: country, city''"

definition example_feedback :: string where
  "example_feedback =
     feedback_preamble @ error_line ''1'' ''SELEC 1'' ''ORA-00900: invalid SQL statement'' @ feedback_trailer"

definition example_trace :: "event list" where
  "example_trace =
     [LlmCall example_prompt, DbOpen, DbExecute ''SELEC 1'', DbClose, Validated False,
      LlmCall (example_prompt @ example_feedback), DbOpen, DbExecute ''SELECT 1'', DbClose,
      Validated True]"

text \<open>The database of \<open>example_env\<close>, for generators that differ in other fields.\<close>

definition uses_example_db :: "env \<Rightarrow> bool" where
  "uses_example_db env \<longleftrightarrow>
     database_connection env = ''db.json''
     \<and> db_open env = (\<lambda>tr cfg. None)
     \<and> db_execute env = (\<lambda>tr sql. if sql = ''SELECT 1'' then None else Some ''ORA-00900: invalid SQL statement'')
     \<and> db_close env = (\<lambda>tr. None)"

text \<open>
  Two worlds with an empty trace: one with the connection file only, one that has
  also the checkpoint file \<open>{"dataset": {}}\<close>.
\<close>

definition start :: world where
  "start = \<lparr>files = config_only, trace = []\<rparr>"

definition broken_start :: world where
  "broken_start =
     \<lparr>files = (\<lambda>p. if p = ''db.json'' then Some (Doc config_doc) else broken_store p), trace = []\<rparr>"




section \<open>Properties of the prompt builder\<close>

lemma str_nat_1: "str_nat (Suc 0) = ''1''"
  by code_simp

lemma table_block_missing_examples:
  "table_column_values_hashmap env t = None \<Longrightarrow> table_block env t = Inl AttributeError"
  by (simp add: table_block_def get_examples_def)

lemma build_tables_context_missing_examples:
  "t \<in> set ts \<Longrightarrow> table_column_values_hashmap env t = None \<Longrightarrow>
   \<exists>e. build_tables_context env ts acc = Inl e"
proof (induction ts arbitrary: acc)
  case Nil
  then show ?case by simp
next
  case (Cons a ts)
  show ?case
  proof (cases "table_block env a")
    case (Inl e)
    then show ?thesis by simp
  next
    case (Inr block)
    with Cons.prems have "a \<noteq> t" using table_block_missing_examples by fastforce
    with Cons Inr show ?thesis by auto
  qed
qed

lemma create_prompt_missing_examples:
  "t \<in> set (tables c) \<Longrightarrow> table_column_values_hashmap env t = None \<Longrightarrow>
   \<exists>e. create_prompt_from_join_combination_data env i c = Inl e"
  using build_tables_context_missing_examples [of t "tables c" env "[]"]
  by (auto simp: create_prompt_from_join_combination_data_def Let_def)

lemma example_prompt_built:
  "create_prompt_from_join_combination_data example_env 0 example_combination = Inr example_prompt"
proof -
  have c: "table_block example_env ''country'' =
      Inr (''Table: country'' @ nl @ ''DDL:'' @ nl @ ''CREATE TABLE country (name VARCHAR2(50))'' @ nl
           @ ''Column values examples:'' @ nl @ ''{}'' @ nl)"
    by (simp add: table_block_def get_examples_def example_env_def)
  have y: "table_block example_env ''city'' =
      Inr (''Table: city'' @ nl @ ''DDL:'' @ nl @ ''DDL not found'' @ nl
           @ ''Column values examples:'' @ nl @ ''{}'' @ nl)"
    by (simp add: table_block_def get_examples_def example_env_def)
  have f: "format_prompt example_env eid js jl tc ti = Inr (''Experiment '' @ eid @ '': '' @ ti)" for eid js jl tc ti
    by (simp add: example_env_def)
  have s: "str_nat (Suc 0) = ''1''" by code_simp
  show ?thesis
    by (simp add: create_prompt_from_join_combination_data_def example_combination_def
        example_prompt_def c y f s)
qed

text \<open>
  C8 fails on the code. A table that is absent from the example-values lookup gets the
  fallback string, and \<open>items\<close> of a string raises \<open>AttributeError\<close>: the
  combination over \<open>country\<close> and \<open>river\<close> builds no prompt, although the template
  is well formed. The fallback of the DDL lookup works: \<open>city\<close> has no DDL and
  the prompt for \<open>country\<close> and \<open>city\<close> is built.
\<close>

theorem missing_examples_fallback_raises:
  "table_column_values_hashmap example_env ''river'' = None
   \<and> create_prompt_from_join_combination_data example_env 0 river_combination = Inl AttributeError
   \<and> table_ddls_hashmap example_env ''city'' = None
   \<and> create_prompt_from_join_combination_data example_env 0 example_combination
       = Inr ''Experiment 1: country, city''"
proof -
  have c: "table_block example_env ''country'' =
      Inr (''Table: country'' @ nl @ ''DDL:'' @ nl @ ''CREATE TABLE country (name VARCHAR2(50))'' @ nl
           @ ''Column values examples:'' @ nl @ ''{}'' @ nl)"
    by (simp add: table_block_def get_examples_def example_env_def)
  have r: "table_block example_env ''river'' = Inl AttributeError"
    by (simp add: table_block_def get_examples_def example_env_def)
  have y: "table_block example_env ''city'' =
      Inr (''Table: city'' @ nl @ ''DDL:'' @ nl @ ''DDL not found'' @ nl
           @ ''Column values examples:'' @ nl @ ''{}'' @ nl)"
    by (simp add: table_block_def get_examples_def example_env_def)
  have f: "format_prompt example_env eid js jl tc ti = Inr (''Experiment '' @ eid @ '': '' @ ti)" for eid js jl tc ti
    by (simp add: example_env_def)
  have 1: "table_column_values_hashmap example_env ''river'' = None" by (simp add: example_env_def)
  have 2: "create_prompt_from_join_combination_data example_env 0 river_combination = Inl AttributeError"
    by (simp add: create_prompt_from_join_combination_data_def river_combination_def c r)
  have 3: "table_ddls_hashmap example_env ''city'' = None" by (simp add: example_env_def)
  have 4: "create_prompt_from_join_combination_data example_env 0 example_combination
       = Inr ''Experiment 1: country, city''"
    using example_prompt_built by (simp add: example_prompt_def)
  show ?thesis using 1 2 3 4 by blast
qed

section \<open>Properties of the checkpoint store\<close>

lemma py_get_model_dump: "py_get (model_dump e) ''experiment_id'' = Inr (JStr (experiment_id e))"
  by (simp add: model_dump_def)

lemma scan_dataset_append_dump:
  "list_all is_object xs \<Longrightarrow> scan_dataset (xs @ [model_dump e]) (experiment_id e) = Inr True"
proof (induction xs)
  case Nil
  show ?case by (simp add: py_get_model_dump)
next
  case (Cons x xs)
  then obtain kvs where "x = JObj kvs" by (cases x) auto
  with Cons show ?case by (simp split: option.splits)
qed

lemma exists_after_write:
  assumes "map_of kvs ''dataset'' = Some (JArr xs)" and "list_all is_object xs"
  shows "dialogue_exists_in_dataset (fs(p \<mapsto> Doc (JObj (AList.update ''dataset'' (JArr (xs @ [model_dump e])) kvs))))
           (experiment_id e) p = Inr True"
  using assms scan_dataset_append_dump [of xs e]
  by (simp add: dialogue_exists_in_dataset_def update_conv')

lemma store_ok_cases:
  assumes "store_ok (fs p)"
  shows "load_existing fs p = Inr empty_store
         \<or> (\<exists>kvs xs. fs p = Some (Doc (JObj kvs)) \<and> map_of kvs ''dataset'' = Some (JArr xs) \<and> list_all is_object xs)"
proof (cases "fs p")
  case None
  then show ?thesis by (simp add: load_existing_def)
next
  case (Some f)
  show ?thesis
  proof (cases f)
    case Invalid
    with Some show ?thesis by (simp add: load_existing_def)
  next
    case (Unreadable x)
    with Some assms show ?thesis by (simp add: store_ok_def)
  next
    case (Doc d)
    show ?thesis
    proof (cases "py_contains ''dataset'' d")
      case (Inl e)
      with Some Doc assms show ?thesis by (simp add: store_ok_def)
    next
      case (Inr b)
      show ?thesis
      proof (cases b)
        case False
        with Some Doc Inr show ?thesis by (simp add: load_existing_def)
      next
        case True
        with Some Doc Inr assms obtain xs where g: "py_getitem d ''dataset'' = Inr (JArr xs)" and o: "list_all is_object xs"
          by (auto simp: store_ok_def split: sum.splits json.splits)
        from g obtain kvs where "d = JObj kvs" by (cases d) auto
        with g have "map_of kvs ''dataset'' = Some (JArr xs)" by (auto split: option.splits)
        with Some Doc \<open>d = JObj kvs\<close> o show ?thesis by blast
      qed
    qed
  qed
qed

lemma store_ok_append:
  assumes "store_ok (fs p)"
  shows "\<exists>existing new_data.
           load_existing fs p = Inr existing
         \<and> append_to_dataset existing (model_dump e) = Inr new_data
         \<and> stored (Some (Doc new_data)) = stored (fs p) @ [model_dump e]
         \<and> store_ok (Some (Doc new_data))
         \<and> dialogue_exists_in_dataset (fs(p \<mapsto> Doc new_data)) (experiment_id e) p = Inr True"
proof -
  have obj: "is_object (model_dump e)" by (simp add: model_dump_def)
  from store_ok_cases [of fs p] assms
  have "load_existing fs p = Inr empty_store
         \<or> (\<exists>kvs xs. fs p = Some (Doc (JObj kvs)) \<and> map_of kvs ''dataset'' = Some (JArr xs) \<and> list_all is_object xs)"
    by blast
  then show ?thesis
  proof
    assume le: "load_existing fs p = Inr empty_store"
    let ?new = "JObj [(''dataset'', JArr [model_dump e])]"
    have a: "append_to_dataset empty_store (model_dump e) = Inr ?new"
      by (simp add: append_to_dataset_def empty_store_def)
    have "stored (fs p) = []"
      using le
      by (auto simp: load_existing_def stored_def empty_store_def
          split: option.splits file_content.splits sum.splits bool.splits if_splits)
    then have st: "stored (Some (Doc ?new)) = stored (fs p) @ [model_dump e]"
      by (simp add: stored_def)
    have ok: "store_ok (Some (Doc ?new))" using obj by (simp add: store_ok_def)
    have ex: "dialogue_exists_in_dataset (fs(p \<mapsto> Doc ?new)) (experiment_id e) p = Inr True"
      by (simp add: dialogue_exists_in_dataset_def py_get_model_dump)
    from le a st ok ex show ?thesis by blast
  next
    assume "\<exists>kvs xs. fs p = Some (Doc (JObj kvs)) \<and> map_of kvs ''dataset'' = Some (JArr xs) \<and> list_all is_object xs"
    then obtain kvs xs where f: "fs p = Some (Doc (JObj kvs))" and m: "map_of kvs ''dataset'' = Some (JArr xs)"
      and o: "list_all is_object xs" by blast
    let ?new = "JObj (AList.update ''dataset'' (JArr (xs @ [model_dump e])) kvs)"
    have le: "load_existing fs p = Inr (JObj kvs)" using f m by (simp add: load_existing_def)
    have a: "append_to_dataset (JObj kvs) (model_dump e) = Inr ?new"
      using m by (simp add: append_to_dataset_def)
    have "stored (fs p) = xs" using f m by (simp add: stored_def)
    then have st: "stored (Some (Doc ?new)) = stored (fs p) @ [model_dump e]"
      by (simp add: stored_def update_conv')
    have ok: "store_ok (Some (Doc ?new))" using o obj by (simp add: store_ok_def update_conv')
    have ex: "dialogue_exists_in_dataset (fs(p \<mapsto> Doc ?new)) (experiment_id e) p = Inr True"
      using exists_after_write [OF m o] by simp
    from le a st ok ex show ?thesis by blast
  qed
qed

lemma save_written:
  assumes "store_ok (fs p)" and "wr p = Written"
  shows "\<exists>new_data.
           save_dialogue_to_file wr fs e p = fs(p \<mapsto> Doc new_data)
         \<and> stored (Some (Doc new_data)) = stored (fs p) @ [model_dump e]
         \<and> store_ok (Some (Doc new_data))
         \<and> dialogue_exists_in_dataset (fs(p \<mapsto> Doc new_data)) (experiment_id e) p = Inr True"
proof -
  from store_ok_append [of fs p e] assms(1)
  obtain existing new_data where x: "load_existing fs p = Inr existing"
    "append_to_dataset existing (model_dump e) = Inr new_data"
    "stored (Some (Doc new_data)) = stored (fs p) @ [model_dump e]"
    "store_ok (Some (Doc new_data))"
    "dialogue_exists_in_dataset (fs(p \<mapsto> Doc new_data)) (experiment_id e) p = Inr True"
    by blast
  have "save_dialogue_to_file wr fs e p = fs(p \<mapsto> Doc new_data)"
    using x(1,2) assms(2) by (simp add: save_dialogue_to_file_def save_attempt_def)
  with x(3,4,5) show ?thesis by blast
qed

lemma save_open_raises:
  assumes "wr p = OpenRaises x"
  shows "save_dialogue_to_file wr fs e p = fs"
  using assms by (simp add: save_dialogue_to_file_def save_attempt_def split: sum.splits)

lemma save_dump_raises:
  assumes "store_ok (fs p)" and "wr p = DumpRaises x"
  shows "save_dialogue_to_file wr fs e p = fs(p \<mapsto> Invalid)"
proof -
  from store_ok_append [of fs p e] assms(1)
  obtain existing new_data where "load_existing fs p = Inr existing"
    "append_to_dataset existing (model_dump e) = Inr new_data" by blast
  then show ?thesis using assms(2) by (simp add: save_dialogue_to_file_def save_attempt_def)
qed

lemma stored_after_save:
  assumes "store_ok (fs p)" and "wr p = Written"
  shows "stored (save_dialogue_to_file wr fs e p p) = stored (fs p) @ [model_dump e]
         \<and> store_ok (save_dialogue_to_file wr fs e p p)"
  using save_written [of fs p wr e] assms by auto

lemma store_ok_after_save:
  assumes "store_ok (fs p)"
  shows "store_ok (save_dialogue_to_file wr fs e p p)"
proof (cases "wr p")
  case Written
  with assms show ?thesis using stored_after_save [of fs p wr e] by simp
next
  case (OpenRaises x)
  with assms show ?thesis by (simp add: save_open_raises)
next
  case (DumpRaises x)
  with assms show ?thesis using save_dump_raises [of fs p wr x e] by (simp add: store_ok_def)
qed

text \<open>
  What the conditions of \<open>store_ok\<close> and on the write exclude: a rewrite that fails
  after the file was opened leaves a file in which no id is found; and in a dataset
  with an element that is not a dict the scan raises before it reaches a later
  element with the id.
\<close>

lemma truncated_checkpoint_forgets:
  assumes "store_ok (fs p)" and "wr p = DumpRaises x"
  shows "id_count (save_dialogue_to_file wr fs e p p) eid = 0"
    and "dialogue_exists_in_dataset (save_dialogue_to_file wr fs e p) eid p = Inr False"
  using save_dump_raises [of fs p wr x e] assms
  by (simp_all add: id_count_def stored_def dialogue_exists_in_dataset_def)

lemma scan_raises_before_match:
  "dialogue_exists_in_dataset
     (\<lambda>p. Some (Doc (JObj [(''dataset'', JArr [JNum 5, JObj [(''experiment_id'', JStr ''1'')]])])))
     ''1'' ''out.json'' = Inl AttributeError"
  by (simp add: dialogue_exists_in_dataset_def)

lemma unreadable_checkpoint:
  assumes "fs p = Some (Unreadable ValueError)"
  shows "dialogue_exists_in_dataset fs eid p = Inl ValueError"
    and "save_dialogue_to_file wr fs e p = fs"
  using assms
  by (simp_all add: dialogue_exists_in_dataset_def save_dialogue_to_file_def save_attempt_def
      load_existing_def)




section \<open>Properties of the validator\<close>

lemma executed_append: "executed (a @ b) = executed a @ executed b"
  by (induction a rule: executed.induct) auto

lemma rstrip_decompose: "s = rstrip c s @ replicate (length (takeWhile (\<lambda>x. x = c) (rev s))) c"
proof -
  let ?P = "\<lambda>x. x = c"
  have tw: "takeWhile ?P (rev s) = replicate (length (takeWhile ?P (rev s))) c"
    by (rule replicate_length_same [symmetric]) (auto dest: set_takeWhileD)
  have "s = rstrip c s @ rev (takeWhile ?P (rev s))"
    unfolding rstrip_def by (metis rev_append rev_rev_ident takeWhile_dropWhile_id)
  also have "rev (takeWhile ?P (rev s)) = replicate (length (takeWhile ?P (rev s))) c"
    using tw by (metis rev_replicate)
  finally show ?thesis .
qed

lemma rstrip_last: "rstrip c s \<noteq> [] \<Longrightarrow> last (rstrip c s) \<noteq> c"
  unfolding rstrip_def
  by (metis (mono_tags, lifting) hd_dropWhile last_rev rev_is_Nil_conv)

lemma check_interactions_executed:
  "executed (snd (check_interactions env tr xs errs)) =
     executed tr @ map (\<lambda>x. prepare_sql (golden_sql (ground_truths x))) xs"
  by (induction xs arbitrary: tr errs) (auto simp: Let_def executed_append split: option.splits)

lemma validate_with_executed:
  "db_open env tr cfg = None \<Longrightarrow>
   executed (snd (validate_with env tr cfg d)) =
     executed tr @ map (\<lambda>x. prepare_sql (golden_sql (ground_truths x))) (interactions d)"
  using check_interactions_executed [of env "tr @ [DbOpen]" "interactions d" "[]"]
  by (auto simp: validate_with_def executed_append split: prod.splits option.splits)

lemma load_config_only: "load_db_config config_only (database_connection example_env) = Inr config_settings"
  by (simp add: load_db_config_def config_only_def example_env_def config_doc_def config_settings_def)

text \<open>
  C5, as the code has it. Once the settings are loaded and the connection is open, the
  statements the validator executes are, in the order of the interactions, each
  \<open>golden_sql\<close> passed through \<open>prepare_sql\<close>; and \<open>prepare_sql\<close> removes the surrounding
  whitespace and then every trailing \<open>;\<close>: the stripped text is the result followed by
  some number of \<open>;\<close>, and the result does not end in \<open>;\<close>.
\<close>

theorem executed_sql_has_no_trailing_terminator:
  assumes "load_db_config fs (database_connection env) = Inr cfg"
    and "db_open env tr cfg = None"
  shows "executed (snd (check_dialogue_sintax env fs tr d)) =
           executed tr @ map (\<lambda>x. prepare_sql (golden_sql (ground_truths x))) (interactions d)
         \<and> (\<forall>sql. (\<exists>k. strip sql = prepare_sql sql @ replicate k (CHR '';''))
                \<and> (prepare_sql sql = [] \<or> last (prepare_sql sql) \<noteq> CHR '';''))"
proof -
  have "executed (snd (check_dialogue_sintax env fs tr d)) = executed (snd (validate_with env tr cfg d))"
    using assms(1) by (simp add: check_dialogue_sintax_def executed_append split: prod.splits)
  moreover have "\<exists>k. strip sql = prepare_sql sql @ replicate k (CHR '';'')" for sql
    unfolding prepare_sql_def using rstrip_decompose [of "strip sql" "CHR '';''"] by blast
  moreover have "prepare_sql sql = [] \<or> last (prepare_sql sql) \<noteq> CHR '';''" for sql
    unfolding prepare_sql_def using rstrip_last by blast
  ultimately show ?thesis using validate_with_executed [OF assms(2)] by simp
qed

theorem executed_sql_has_no_trailing_terminator_witness:
  "load_db_config config_only (database_connection example_env) = Inr config_settings
   \<and> db_open example_env [] config_settings = None
   \<and> executed (snd (check_dialogue_sintax example_env config_only [] (one_turn ''1'' '' SELECT 1; ''))) = [''SELECT 1'']"
proof -
  have h1: "load_db_config config_only (database_connection example_env) = Inr config_settings"
    by (rule load_config_only)
  have h2: "db_open example_env [] config_settings = None"
    by (simp add: example_env_def)
  have p: "prepare_sql '' SELECT 1; '' = ''SELECT 1''"
    by (simp add: prepare_sql_def rstrip_def strip_def is_space_def)
  show ?thesis
    using h1 h2 executed_sql_has_no_trailing_terminator [OF h1 h2, of "one_turn ''1'' '' SELECT 1; ''"]
    by (simp add: one_turn_def p)
qed

text \<open>
  C5 as stated fails: for the statement \<open>SELECT 1;;\<close> the validator executes
  \<open>SELECT 1\<close>, with both terminators removed, and not \<open>SELECT 1;\<close>.
\<close>

theorem single_terminator_counterexample:
  "executed (snd (check_dialogue_sintax example_env config_only [] (one_turn ''1'' ''SELECT 1;;'')))
     \<noteq> map (\<lambda>x. spec_prepare_sql (golden_sql (ground_truths x))) (interactions (one_turn ''1'' ''SELECT 1;;''))"
proof -
  have p: "prepare_sql ''SELECT 1;;'' = ''SELECT 1''"
    by (simp add: prepare_sql_def rstrip_def strip_def is_space_def)
  have q: "spec_prepare_sql ''SELECT 1;;'' = ''SELECT 1;''"
    by (simp add: spec_prepare_sql_def strip_def is_space_def)
  have o: "db_open example_env [] config_settings = None"
    by (simp add: example_env_def)
  have "executed (snd (check_dialogue_sintax example_env config_only [] (one_turn ''1'' ''SELECT 1;;'')))
          = executed (snd (validate_with example_env [] config_settings (one_turn ''1'' ''SELECT 1;;'')))"
    by (simp add: check_dialogue_sintax_def load_config_only executed_append split: prod.splits)
  also have "\<dots> = [''SELECT 1'']"
    using validate_with_executed [OF o, of "one_turn ''1'' ''SELECT 1;;''"]
    by (simp add: one_turn_def p)
  finally have "executed (snd (check_dialogue_sintax example_env config_only [] (one_turn ''1'' ''SELECT 1;;''))) = [''SELECT 1'']" .
  then show ?thesis by (simp add: one_turn_def q)
qed

lemma check_interactions_errors:
  "fst (check_interactions env tr xs errs) = errs @ map line_of (failures env tr xs)"
  by (induction xs arbitrary: tr errs) (auto simp: Let_def line_of_def split: option.splits)

lemma check_executed:
  "load_db_config fs (database_connection env) = Inr cfg \<Longrightarrow>
   executed (snd (check_dialogue_sintax env fs tr d)) = executed (snd (validate_with env tr cfg d))"
  by (simp add: check_dialogue_sintax_def executed_append split: prod.splits)

lemma feedback_preamble_nonempty: "feedback_preamble \<noteq> []"
  by (simp add: feedback_preamble_def nl_def)

lemma load_db_config_missing_key:
  assumes "fs p = Some (Doc (JObj kvs))" and "k \<in> set required_keys" and "map_of kvs k = None"
  shows "\<exists>k' \<in> set required_keys. map_of kvs k' = None \<and> load_db_config fs p = Inl (KeyError k')"
  using assms
  by (auto simp: load_db_config_def required_keys_def split: option.splits)

text \<open>
  C9. When the connection file is missing, is not JSON, or is a dict that lacks one of
  the five keys, \<open>check_dialogue_sintax\<close> raises (\<open>FileNotFoundError\<close>,
  \<open>JSONDecodeError\<close>, \<open>KeyError\<close> of a missing key) and returns no validation result;
  the trace is unchanged: no connection was attempted.
\<close>

theorem config_failure_is_raised:
  "(fs (database_connection env) = None \<longrightarrow>
      check_dialogue_sintax env fs tr d = (Inl FileNotFoundError, tr))
   \<and> (fs (database_connection env) = Some Invalid \<longrightarrow>
      check_dialogue_sintax env fs tr d = (Inl JSONDecodeError, tr))
   \<and> (fs (database_connection env) = Some (Doc (JObj kvs)) \<and> k \<in> set required_keys \<and> map_of kvs k = None \<longrightarrow>
      (\<exists>k' \<in> set required_keys. map_of kvs k' = None
          \<and> check_dialogue_sintax env fs tr d = (Inl (KeyError k'), tr)))"
proof (intro conjI impI)
  assume "fs (database_connection env) = None"
  then show "check_dialogue_sintax env fs tr d = (Inl FileNotFoundError, tr)"
    by (simp add: check_dialogue_sintax_def load_db_config_def)
next
  assume "fs (database_connection env) = Some Invalid"
  then show "check_dialogue_sintax env fs tr d = (Inl JSONDecodeError, tr)"
    by (simp add: check_dialogue_sintax_def load_db_config_def)
next
  assume "fs (database_connection env) = Some (Doc (JObj kvs)) \<and> k \<in> set required_keys \<and> map_of kvs k = None"
  then obtain k' where "k' \<in> set required_keys" "map_of kvs k' = None"
    "load_db_config fs (database_connection env) = Inl (KeyError k')"
    using load_db_config_missing_key [of fs "database_connection env" kvs k] by blast
  then show "\<exists>k' \<in> set required_keys. map_of kvs k' = None
          \<and> check_dialogue_sintax env fs tr d = (Inl (KeyError k'), tr)"
    by (auto simp: check_dialogue_sintax_def)
qed

theorem config_failure_is_raised_witness:
  "check_dialogue_sintax example_env (\<lambda>p. None) [] two_turns = (Inl FileNotFoundError, [])
   \<and> check_dialogue_sintax example_env invalid_config [] two_turns = (Inl JSONDecodeError, [])
   \<and> check_dialogue_sintax example_env missing_key_config [] two_turns = (Inl (KeyError ''DB_USER_NAME''), [])"
proof -
  have dc: "database_connection example_env = ''db.json''" by (simp add: example_env_def)
  have a: "check_dialogue_sintax example_env (\<lambda>p. None) [] two_turns = (Inl FileNotFoundError, [])"
    using config_failure_is_raised [where fs = "\<lambda>p. None" and env = example_env and tr = "[]" and d = two_turns] by simp
  have b: "check_dialogue_sintax example_env invalid_config [] two_turns = (Inl JSONDecodeError, [])"
    using config_failure_is_raised [where fs = invalid_config and env = example_env and tr = "[]" and d = two_turns] by (simp add: dc invalid_config_def)
  have "\<exists>k' \<in> set required_keys. map_of [(''DB_HOST'', JStr ''localhost''), (''DB_PORT'', JNum 1521)] k' = None
          \<and> check_dialogue_sintax example_env missing_key_config [] two_turns = (Inl (KeyError k'), [])"
    using config_failure_is_raised [where fs = missing_key_config and env = example_env and tr = "[]" and d = two_turns
        and kvs = "[(''DB_HOST'', JStr ''localhost''), (''DB_PORT'', JNum 1521)]" and k = "''DB_PASS''"]
    by (simp add: dc missing_key_config_def required_keys_def)
  moreover have "check_dialogue_sintax example_env missing_key_config [] two_turns = (Inl (KeyError ''DB_USER_NAME''), [])"
    by (simp add: check_dialogue_sintax_def load_db_config_def dc missing_key_config_def)
  ultimately show ?thesis using a b by simp
qed

text \<open>
  C7. When the settings are loaded and opening the connection fails with the text
  \<open>cause\<close>, \<open>check_dialogue_sintax\<close> returns \<open>False\<close> with the message
  \<open>Error connecting to the database: \<close> followed by \<open>cause\<close>, and no statement is
  executed.
\<close>

theorem connection_failure_is_reported:
  assumes "load_db_config fs (database_connection env) = Inr cfg"
    and "db_open env tr cfg = Some cause"
  shows "check_dialogue_sintax env fs tr d =
           (Inr (False, ''Error connecting to the database: '' @ cause), tr @ [DbOpen, Validated False])
         \<and> executed (snd (check_dialogue_sintax env fs tr d)) = executed tr"
proof -
  have "check_dialogue_sintax env fs tr d =
           (Inr (False, ''Error connecting to the database: '' @ cause), tr @ [DbOpen, Validated False])"
    using assms by (simp add: check_dialogue_sintax_def validate_with_def connection_error_def)
  then show ?thesis by (simp add: executed_append)
qed

theorem connection_failure_is_reported_witness:
  "load_db_config config_only (database_connection no_listener) = Inr config_settings
   \<and> db_open no_listener [] config_settings = Some ''DPY-6005: cannot connect to database''
   \<and> check_dialogue_sintax no_listener config_only [] two_turns =
       (Inr (False, ''Error connecting to the database: DPY-6005: cannot connect to database''), [DbOpen, Validated False])"
proof -
  have h1: "load_db_config config_only (database_connection no_listener) = Inr config_settings"
    using load_config_only by (simp add: no_listener_def)
  have h2: "db_open no_listener [] config_settings = Some ''DPY-6005: cannot connect to database''"
    by (simp add: no_listener_def)
  show ?thesis using h1 h2 connection_failure_is_reported [OF h1 h2, of two_turns] by simp
qed

text \<open>
  What the validator returns when the settings are loaded and the connection is opened
  and closed without error: \<open>(True, "")\<close> exactly when no statement failed; otherwise
  \<open>False\<close> with the preamble, the lines of the failing interactions joined by
  newlines, and the trailer; that feedback is not empty; the line of a failing
  interaction starts with \<open>Interaction\<close>, its id and \<open>, SQL: \<close>; and the statement of
  every interaction is executed, whether or not an earlier one failed.
\<close>

theorem validation_result:
  assumes "load_db_config fs (database_connection env) = Inr cfg"
    and "db_open env tr cfg = None"
    and "db_close env (snd (check_interactions env (tr @ [DbOpen]) (interactions d) [])) = None"
  shows "fst (check_dialogue_sintax env fs tr d) =
           Inr (if failures env (tr @ [DbOpen]) (interactions d) = [] then (True, [])
                else (False, feedback_preamble
                             @ join nl (map line_of (failures env (tr @ [DbOpen]) (interactions d)))
                             @ feedback_trailer))
         \<and> (\<forall>r. fst (check_dialogue_sintax env fs tr d) = Inr r \<and> \<not> fst r \<longrightarrow> snd r \<noteq> [])
         \<and> (\<forall>f \<in> set (failures env (tr @ [DbOpen]) (interactions d)).
               fst f \<in> set (interactions d)
               \<and> (\<exists>rest. line_of f = ''Interaction '' @ interaction_id (fst f) @ '', SQL: '' @ rest))
         \<and> executed (snd (check_dialogue_sintax env fs tr d)) =
             executed tr @ map (\<lambda>x. prepare_sql (golden_sql (ground_truths x))) (interactions d)"
proof -
  let ?ci = "check_interactions env (tr @ [DbOpen]) (interactions d) []"
  let ?fl = "failures env (tr @ [DbOpen]) (interactions d)"
  have errs: "fst ?ci = map line_of ?fl"
    using check_interactions_errors [of env "tr @ [DbOpen]" "interactions d" "[]"] by simp
  have vw: "validate_with env tr cfg d =
              (if ?fl = [] then (True, [])
               else (False, feedback_preamble @ join nl (map line_of ?fl) @ feedback_trailer),
               snd ?ci @ [DbClose])"
    using assms(2,3) errs by (cases ?ci) (simp add: validate_with_def)
  have res: "fst (check_dialogue_sintax env fs tr d) =
           Inr (if ?fl = [] then (True, [])
                else (False, feedback_preamble @ join nl (map line_of ?fl) @ feedback_trailer))"
    using assms(1) vw by (simp add: check_dialogue_sintax_def)
  have nonempty: "\<forall>r. fst (check_dialogue_sintax env fs tr d) = Inr r \<and> \<not> fst r \<longrightarrow> snd r \<noteq> []"
    using res feedback_preamble_nonempty by (auto split: if_splits)
  have mem: "fst f \<in> set xs" if "f \<in> set (failures env t xs)" for f t xs
    using that by (induction xs arbitrary: t) (auto simp: Let_def split: option.splits)
  have form: "\<exists>rest. line_of f = ''Interaction '' @ interaction_id (fst f) @ '', SQL: '' @ rest" for f
    by (simp add: line_of_def error_line_def)
  have ex: "executed (snd (check_dialogue_sintax env fs tr d)) =
             executed tr @ map (\<lambda>x. prepare_sql (golden_sql (ground_truths x))) (interactions d)"
    using check_executed [OF assms(1), of tr d] validate_with_executed [OF assms(2), of d] by simp
  show ?thesis using res nonempty mem form ex by blast
qed

theorem validation_result_witness:
  "load_db_config config_only (database_connection example_env) = Inr config_settings
   \<and> db_open example_env [] config_settings = None
   \<and> db_close example_env (snd (check_interactions example_env ([] @ [DbOpen]) (interactions two_turns) [])) = None
   \<and> fst (check_dialogue_sintax example_env config_only [] two_turns) =
       Inr (False, feedback_preamble
                   @ ''Interaction 1, SQL: '' @ [CHR 0x27] @ ''SELEC 1'' @ [CHR 0x27] @ '' - Error: ORA-00900: invalid SQL statement''
                   @ feedback_trailer)
   \<and> executed (snd (check_dialogue_sintax example_env config_only [] two_turns)) = [''SELEC 1'', ''SELECT 1'']"
proof -
  have h1: "load_db_config config_only (database_connection example_env) = Inr config_settings"
    by (rule load_config_only)
  have h2: "db_open example_env [] config_settings = None"
    by (simp add: example_env_def)
  have h3: "db_close example_env (snd (check_interactions example_env ([] @ [DbOpen]) (interactions two_turns) [])) = None"
    by (simp add: example_env_def)
  have p1: "prepare_sql ''SELEC 1'' = ''SELEC 1''"
    by (simp add: prepare_sql_def rstrip_def strip_def is_space_def)
  have p2: "prepare_sql ''SELECT 1;'' = ''SELECT 1''"
    by (simp add: prepare_sql_def rstrip_def strip_def is_space_def)
  have ex: "db_execute example_env t sql = (if sql = ''SELECT 1'' then None else Some ''ORA-00900: invalid SQL statement'')" for t sql
    by (simp add: example_env_def)
  have fl: "failures example_env [DbOpen] (interactions two_turns) = [(hd (interactions two_turns), ''ORA-00900: invalid SQL statement'')]"
    by (simp add: two_turns_def p1 p2 ex)
  have ln: "line_of (hd (interactions two_turns), ''ORA-00900: invalid SQL statement'') =
      ''Interaction 1, SQL: '' @ [CHR 0x27] @ ''SELEC 1'' @ [CHR 0x27] @ '' - Error: ORA-00900: invalid SQL statement''"
    by (simp add: line_of_def error_line_def two_turns_def p1)
  have "fst (check_dialogue_sintax example_env config_only [] two_turns) =
       Inr (False, feedback_preamble
                   @ ''Interaction 1, SQL: '' @ [CHR 0x27] @ ''SELEC 1'' @ [CHR 0x27] @ '' - Error: ORA-00900: invalid SQL statement''
                   @ feedback_trailer)"
    using validation_result [OF h1 h2 h3] fl ln by simp
  moreover have "executed (snd (check_dialogue_sintax example_env config_only [] two_turns)) = [''SELEC 1'', ''SELECT 1'']"
    using validation_result [OF h1 h2 h3] by (simp add: two_turns_def p1 p2)
  ultimately show ?thesis using h1 h2 h3 by blast
qed

text \<open>
  C2 fails on the code. The two \<open>close\<close> calls of lines 181-182 are inside the outer
  \<open>try\<close>: when the connection opens, the only statement of the dialogue is executed
  without error, so that no per-statement error is collected, and closing raises, the
  result is \<open>False\<close> with the connection message, and not \<open>(True, "")\<close>.
\<close>

theorem close_failure_rejects_valid_dialogue:
  "failures closing_fails [DbOpen] (interactions (one_turn ''1'' ''SELECT 1;'')) = []
   \<and> executed (snd (check_dialogue_sintax closing_fails config_only [] (one_turn ''1'' ''SELECT 1;''))) = [''SELECT 1'']
   \<and> fst (check_dialogue_sintax closing_fails config_only [] (one_turn ''1'' ''SELECT 1;'')) =
       Inr (False, ''Error connecting to the database: DPY-1001: not connected to database'')"
proof -
  have p: "prepare_sql ''SELECT 1;'' = ''SELECT 1''"
    by (simp add: prepare_sql_def rstrip_def strip_def is_space_def)
  have h1: "load_db_config config_only (database_connection closing_fails) = Inr config_settings"
    using load_config_only by (simp add: closing_fails_def)
  have db: "db_open closing_fails t cfg = None"
    "db_execute closing_fails t ''SELECT 1'' = None"
    "db_close closing_fails t = Some ''DPY-1001: not connected to database''" for t cfg
    by (simp_all add: closing_fails_def example_env_def)
  have f: "failures closing_fails [DbOpen] (interactions (one_turn ''1'' ''SELECT 1;'')) = []"
    by (simp add: one_turn_def p db)
  have "validate_with closing_fails [] config_settings (one_turn ''1'' ''SELECT 1;'') =
          ((False, connection_error ''DPY-1001: not connected to database''),
           [DbOpen, DbExecute ''SELECT 1'', DbClose])"
    by (simp add: validate_with_def one_turn_def p db Let_def)
  then have "check_dialogue_sintax closing_fails config_only [] (one_turn ''1'' ''SELECT 1;'') =
        (Inr (False, connection_error ''DPY-1001: not connected to database''),
         [DbOpen, DbExecute ''SELECT 1'', DbClose, Validated False])"
    using h1 by (simp add: check_dialogue_sintax_def)
  with f show ?thesis by (simp add: connection_error_def)
qed

section \<open>Properties of the generator loop\<close>

lemma llm_calls_append: "llm_calls (a @ b) = llm_calls a @ llm_calls b"
  by (induction a rule: llm_calls.induct) auto

lemma well_paced_Cons_no_call:
  "llm_calls [x] = [] \<Longrightarrow> well_paced (e # x # es) = well_paced (x # es)"
  by (cases x) auto

lemma well_paced_append:
  assumes "well_paced a" and "well_paced b"
    and "a = [] \<or> last a = Validated False \<or> (\<forall>p rest. b \<noteq> LlmCall p # rest)"
  shows "well_paced (a @ b)"
  using assms
proof (induction a rule: well_paced.induct)
  case (2 e)
  show ?case
  proof (cases b)
    case Nil
    then show ?thesis by simp
  next
    case (Cons x bs)
    show ?thesis
    proof (cases "\<exists>p. x = LlmCall p")
      case True
      with 2 Cons show ?thesis by auto
    next
      case False
      then have "llm_calls [x] = []" by (cases x) auto
      with 2 Cons show ?thesis by (simp add: well_paced_Cons_no_call)
    qed
  qed
qed auto

lemma llm_calls_Cons_Nil: "llm_calls (e # es) = [] \<longleftrightarrow> llm_calls [e] = [] \<and> llm_calls es = []"
  using llm_calls_append [of "[e]" es] by simp

lemma no_calls_well_paced: "llm_calls V = [] \<Longrightarrow> well_paced V"
proof (induction V)
  case Nil
  show ?case by simp
next
  case (Cons e es)
  then have es: "llm_calls es = []" and wp: "well_paced es"
    using llm_calls_Cons_Nil [of e es] by auto
  show ?case
  proof (cases es)
    case Nil
    then show ?thesis by simp
  next
    case (Cons x xs)
    with es have "llm_calls [x] = []" using llm_calls_Cons_Nil [of x xs] by simp
    with Cons wp show ?thesis by (simp add: well_paced_Cons_no_call)
  qed
qed

lemma check_interactions_trace:
  "snd (check_interactions env tr xs errs) =
     tr @ map (\<lambda>x. DbExecute (prepare_sql (golden_sql (ground_truths x)))) xs"
  by (induction xs arbitrary: tr errs) (auto simp: Let_def split: option.splits)

lemma llm_calls_executes: "llm_calls (map (\<lambda>x. DbExecute (f x)) xs) = []"
  by (induction xs) auto

lemma validate_with_trace:
  "\<exists>V. snd (validate_with env tr cfg d) = tr @ V \<and> llm_calls V = []"
proof (cases "db_open env tr cfg")
  case (Some cause)
  then show ?thesis by (simp add: validate_with_def)
next
  case None
  let ?ci = "check_interactions env (tr @ [DbOpen]) (interactions d) []"
  let ?X = "map (\<lambda>x. DbExecute (prepare_sql (golden_sql (ground_truths x)))) (interactions d)"
  have t: "snd ?ci = tr @ DbOpen # ?X"
    using check_interactions_trace [of env "tr @ [DbOpen]" "interactions d" "[]"] by simp
  have "snd (validate_with env tr cfg d) = tr @ (DbOpen # ?X @ [DbClose])"
    using None t by (cases ?ci) (auto simp: validate_with_def split: option.splits)
  moreover have "llm_calls (DbOpen # ?X @ [DbClose]) = []"
    by (simp add: llm_calls_append llm_calls_executes)
  ultimately show ?thesis by blast
qed

lemma check_trace_raise:
  "check_dialogue_sintax env fs tr d = (Inl e, tr') \<Longrightarrow> tr' = tr"
  by (auto simp: check_dialogue_sintax_def split: sum.splits prod.splits)

lemma check_trace_return:
  assumes "check_dialogue_sintax env fs tr d = (Inr (v, fb), tr')"
  shows "\<exists>V. tr' = tr @ V @ [Validated v] \<and> llm_calls V = []"
proof -
  from assms obtain cfg where cfg: "load_db_config fs (database_connection env) = Inr cfg"
    by (auto simp: check_dialogue_sintax_def split: sum.splits)
  obtain V where V: "snd (validate_with env tr cfg d) = tr @ V" "llm_calls V = []"
    using validate_with_trace by blast
  from assms cfg have "tr' = snd (validate_with env tr cfg d) @ [Validated v]"
    by (auto simp: check_dialogue_sintax_def split: prod.splits)
  with V show ?thesis by auto
qed

lemma retry_loop_trace:
  "retry_loop env w prompt d v fb n = (r, w') \<Longrightarrow>
   \<exists>ext. trace w' = trace w @ ext \<and> files w' = files w \<and> well_paced ext
        \<and> length (llm_calls ext) \<le> 3 - n
        \<and> (ext \<noteq> [] \<longrightarrow> \<not> v \<and> (\<exists>p rest. ext = LlmCall p # rest))"
proof (induction env w prompt d v fb n arbitrary: r w' rule: retry_loop.induct)
  case (1 env w prompt dialogue is_valid feedback retries)
  show ?case
  proof (cases "\<not> is_valid \<and> retries < 3")
    case False
    with "1.prems" have "w' = w" by (simp add: retry_loop.simps)
    then show ?thesis by simp
  next
    case True
    let ?p = "prompt @ feedback"
    let ?w1 = "w\<lparr>trace := trace w @ [LlmCall ?p]\<rparr>"
    have g: "generate_dialogue env w ?p = (llm_invoke env (trace w) ?p, ?w1)"
      by (simp add: generate_dialogue_def)
    show ?thesis
    proof (cases "llm_invoke env (trace w) ?p")
      case (Inl e)
      with True "1.prems" g have "w' = ?w1" by (simp add: retry_loop.simps)
      with True show ?thesis by auto
    next
      case (Inr dialogue')
      obtain c tr2 where c: "check_dialogue_sintax env (files ?w1) (trace ?w1) dialogue' = (c, tr2)"
        by (cases "check_dialogue_sintax env (files ?w1) (trace ?w1) dialogue'") auto
      show ?thesis
      proof (cases c)
        case (Inl e)
        with c have "tr2 = trace ?w1" using check_trace_raise by blast
        moreover from True "1.prems" g Inr c Inl have "w' = ?w1\<lparr>trace := tr2\<rparr>"
          by (simp add: retry_loop.simps)
        ultimately show ?thesis using True by auto
      next
        case (Inr vf)
        obtain v' fb' where vf: "vf = (v', fb')" by (cases vf) auto
        from c Inr vf obtain V where V: "tr2 = trace ?w1 @ V @ [Validated v']" "llm_calls V = []"
          using check_trace_return by blast
        let ?w2 = "?w1\<lparr>trace := tr2\<rparr>"
        from True "1.prems" g \<open>llm_invoke env (trace w) ?p = Inr dialogue'\<close> c Inr vf
        have rec: "retry_loop env ?w2 prompt dialogue' v' fb' (retries + 1) = (r, w')"
          by (simp add: retry_loop.simps)
        from "1.IH" [OF True g [symmetric] \<open>llm_invoke env (trace w) ?p = Inr dialogue'\<close> c [symmetric] Inr vf [symmetric] rec]
        obtain ext where ext: "trace w' = trace ?w2 @ ext" "files w' = files ?w2" "well_paced ext"
          "length (llm_calls ext) \<le> 3 - (retries + 1)"
          "ext \<noteq> [] \<longrightarrow> \<not> v' \<and> (\<exists>p rest. ext = LlmCall p # rest)"
          by blast
        let ?mid = "V @ [Validated v']"
        have mid_calls: "llm_calls ?mid = []" using V(2) by (simp add: llm_calls_append)
        have wp_mid: "well_paced ?mid" using mid_calls by (rule no_calls_well_paced)
        have mid_head: "\<forall>p rest. ?mid \<noteq> LlmCall p # rest"
          using mid_calls by (metis list.distinct(1) llm_calls.simps(2))
        have wp1: "well_paced ([LlmCall ?p] @ ?mid)"
          by (rule well_paced_append) (use wp_mid mid_head in auto)
        have wp2: "well_paced (([LlmCall ?p] @ ?mid) @ ext)"
        proof (rule well_paced_append [OF wp1 ext(3)])
          show "[LlmCall ?p] @ ?mid = [] \<or> last ([LlmCall ?p] @ ?mid) = Validated False
                \<or> (\<forall>p rest. ext \<noteq> LlmCall p # rest)"
            using ext(5) by (cases "ext = []") auto
        qed
        have tr: "trace w' = trace w @ (([LlmCall ?p] @ ?mid) @ ext)"
          using ext(1) V(1) by simp
        have len: "length (llm_calls (([LlmCall ?p] @ ?mid) @ ext)) \<le> 3 - retries"
          using ext(4) True mid_calls by (auto simp: llm_calls_append)
        have "files w' = files w" using ext(2) by simp
        with tr wp2 len True show ?thesis by (intro exI [of _ "([LlmCall ?p] @ ?mid) @ ext"]) auto
      qed
    qed
  qed
qed


lemma generate_and_validate_trace:
  assumes "generate_and_validate env w i c = (r, w')"
  shows "\<exists>ext. trace w' = trace w @ ext \<and> well_paced ext \<and> length (llm_calls ext) \<le> 4
           \<and> (\<forall>prompt. create_prompt_from_join_combination_data env i c = Inr prompt \<longrightarrow>
                 (\<exists>rest. ext = LlmCall prompt # rest \<and> length (llm_calls rest) \<le> 3))"
proof (cases "create_prompt_from_join_combination_data env i c")
  case (Inl e)
  with assms have "w' = w" by (simp add: generate_and_validate_def)
  with Inl show ?thesis by simp
next
  case (Inr prompt)
  let ?w1 = "w\<lparr>trace := trace w @ [LlmCall prompt]\<rparr>"
  have g: "generate_dialogue env w prompt = (llm_invoke env (trace w) prompt, ?w1)"
    by (simp add: generate_dialogue_def)
  show ?thesis
  proof (cases "llm_invoke env (trace w) prompt")
    case (Inl e)
    with assms Inr g have "w' = ?w1" by (simp add: generate_and_validate_def)
    with Inr show ?thesis by simp
  next
    case d: (Inr dialogue)
    obtain c0 tr2 where c0: "check_dialogue_sintax env (files ?w1) (trace ?w1) dialogue = (c0, tr2)"
      by (cases "check_dialogue_sintax env (files ?w1) (trace ?w1) dialogue") auto
    show ?thesis
    proof (cases c0)
      case (Inl e)
      with c0 have "tr2 = trace ?w1" using check_trace_raise by blast
      moreover from assms Inr g d c0 Inl have "w' = ?w1\<lparr>trace := tr2\<rparr>"
        by (simp add: generate_and_validate_def)
      ultimately show ?thesis using Inr by simp
    next
      case vf: (Inr vf)
      obtain v fb where vfb: "vf = (v, fb)" by (cases vf) auto
      from c0 vf vfb obtain V where V: "tr2 = trace ?w1 @ V @ [Validated v]" "llm_calls V = []"
        using check_trace_return by blast
      let ?w2 = "?w1\<lparr>trace := tr2\<rparr>"
      obtain rr w3 where rl: "retry_loop env ?w2 prompt dialogue v fb 0 = (rr, w3)"
        by (cases "retry_loop env ?w2 prompt dialogue v fb 0") auto
      from retry_loop_trace [OF rl]
      obtain ext where ext: "trace w3 = trace ?w2 @ ext" "well_paced ext"
        "length (llm_calls ext) \<le> 3"
        "ext \<noteq> [] \<longrightarrow> \<not> v \<and> (\<exists>p rest. ext = LlmCall p # rest)"
        by auto
      have tw: "trace w' = trace w3"
        using assms Inr g d c0 vf vfb rl
        by (auto simp: generate_and_validate_def split: sum.splits prod.splits if_splits)
      let ?mid = "V @ [Validated v]"
      have mid_calls: "llm_calls ?mid = []" using V(2) by (simp add: llm_calls_append)
      have wp_mid: "well_paced ?mid" using mid_calls by (rule no_calls_well_paced)
      have mid_head: "\<forall>p rest. ?mid \<noteq> LlmCall p # rest"
        using mid_calls by (metis list.distinct(1) llm_calls.simps(2))
      have wp1: "well_paced ([LlmCall prompt] @ ?mid)"
        by (rule well_paced_append) (use wp_mid mid_head in auto)
      have wp2: "well_paced (([LlmCall prompt] @ ?mid) @ ext)"
      proof (rule well_paced_append [OF wp1 ext(2)])
        show "[LlmCall prompt] @ ?mid = [] \<or> last ([LlmCall prompt] @ ?mid) = Validated False
              \<or> (\<forall>p rest. ext \<noteq> LlmCall p # rest)"
          using ext(4) by (cases "ext = []") auto
      qed
      have tr: "trace w' = trace w @ (LlmCall prompt # ?mid @ ext)"
        using tw ext(1) V(1) by simp
      have len: "length (llm_calls (?mid @ ext)) \<le> 3"
        using ext(3) mid_calls by (simp add: llm_calls_append)
      show ?thesis
        using tr wp2 len Inr by (intro exI [of _ "LlmCall prompt # ?mid @ ext"]) auto
    qed
  qed
qed

lemma example_env_db: "uses_example_db example_env"
  by (simp add: uses_example_db_def example_env_def)

lemma prepare_sql_examples:
  "prepare_sql ''SELEC 1'' = ''SELEC 1''"
  "prepare_sql ''SELECT 1;'' = ''SELECT 1''"
  "prepare_sql ''SELECT 1'' = ''SELECT 1''"
  by (simp_all add: prepare_sql_def rstrip_def strip_def is_space_def)

lemma load_config_example:
  "uses_example_db env \<Longrightarrow> fs ''db.json'' = Some (Doc config_doc) \<Longrightarrow>
   load_db_config fs (database_connection env) = Inr config_settings"
  by (simp add: uses_example_db_def load_db_config_def config_doc_def config_settings_def)

lemma check_accepts:
  assumes "uses_example_db env" and "fs ''db.json'' = Some (Doc config_doc)"
    and "prepare_sql sql = ''SELECT 1''"
  shows "check_dialogue_sintax env fs tr (one_turn eid sql) =
           (Inr (True, []), tr @ [DbOpen, DbExecute ''SELECT 1'', DbClose, Validated True])"
proof -
  have db: "db_open env tr cfg = None" "db_close env t = None"
    "db_execute env t ''SELECT 1'' = None" for cfg t
    using assms(1) by (simp_all add: uses_example_db_def)
  have "validate_with env tr config_settings (one_turn eid sql) =
          ((True, []), tr @ [DbOpen, DbExecute ''SELECT 1'', DbClose])"
    by (simp add: validate_with_def one_turn_def assms(3) db Let_def)
  then show ?thesis
    using load_config_example [of env fs] assms(1,2) by (simp add: check_dialogue_sintax_def)
qed

lemma check_rejects:
  assumes "uses_example_db env" and "fs ''db.json'' = Some (Doc config_doc)"
    and "prepare_sql sql \<noteq> ''SELECT 1''"
  shows "check_dialogue_sintax env fs tr (one_turn eid sql) =
           (Inr (False, feedback_preamble
                        @ error_line ''1'' (prepare_sql sql) ''ORA-00900: invalid SQL statement''
                        @ feedback_trailer),
            tr @ [DbOpen, DbExecute (prepare_sql sql), DbClose, Validated False])"
proof -
  have db: "db_open env tr cfg = None" "db_close env t = None"
    "db_execute env t (prepare_sql sql) = Some ''ORA-00900: invalid SQL statement''" for cfg t
    using assms(1,3) by (simp_all add: uses_example_db_def)
  have "validate_with env tr config_settings (one_turn eid sql) =
          ((False, feedback_preamble
                        @ error_line ''1'' (prepare_sql sql) ''ORA-00900: invalid SQL statement''
                        @ feedback_trailer), tr @ [DbOpen, DbExecute (prepare_sql sql), DbClose])"
    by (simp add: validate_with_def one_turn_def db Let_def)
  then show ?thesis
    using load_config_example [of env fs] assms(1,2) by (simp add: check_dialogue_sintax_def)
qed

lemma example_generate:
  assumes "fs ''db.json'' = Some (Doc config_doc)"
  shows "generate_and_validate example_env \<lparr>files = fs, trace = []\<rparr> 0 example_combination =
           (Inr (one_turn ''1'' ''SELECT 1;''),
            \<lparr>files = save_dialogue_to_file (\<lambda>path. Written) fs (one_turn ''1'' ''SELECT 1;'') ''out.json'',
             trace = example_trace\<rparr>)"
proof -
  let ?w0 = "\<lparr>files = fs, trace = []\<rparr>"
  let ?t1 = "[LlmCall example_prompt]"
  let ?t2 = "[LlmCall example_prompt, DbOpen, DbExecute ''SELEC 1'', DbClose, Validated False]"
  let ?t3 = "?t2 @ [LlmCall (example_prompt @ example_feedback)]"
  have llm1: "llm_invoke example_env [] p = Inr (one_turn ''1'' ''SELEC 1'')" for p
    by (simp add: example_env_def)
  have llm2: "llm_invoke example_env ?t2 p = Inr (one_turn ''1'' ''SELECT 1;'')" for p
    by (simp add: example_env_def)
  have out: "output_file example_env = ''out.json''" by (simp add: example_env_def)
  have wr: "file_write example_env t = (\<lambda>path. Written)" for t by (simp add: example_env_def)
  have c1: "check_dialogue_sintax example_env fs ?t1 (one_turn ''1'' ''SELEC 1'') =
              (Inr (False, example_feedback), ?t2)"
    using check_rejects [of example_env fs "''SELEC 1''" ?t1 "''1''"] example_env_db assms
    by (simp add: prepare_sql_examples example_feedback_def)
  have c2: "check_dialogue_sintax example_env fs ?t3 (one_turn ''1'' ''SELECT 1;'') =
              (Inr (True, []), example_trace)"
    using check_accepts [of example_env fs "''SELECT 1;''" ?t3 "''1''"] example_env_db assms
    by (simp add: prepare_sql_examples example_trace_def)
  have r2: "retry_loop example_env \<lparr>files = fs, trace = example_trace\<rparr> example_prompt
              (one_turn ''1'' ''SELECT 1;'') True [] 1 =
            (Inr (one_turn ''1'' ''SELECT 1;'', True), \<lparr>files = fs, trace = example_trace\<rparr>)"
    by (simp add: retry_loop.simps)
  have r1: "retry_loop example_env \<lparr>files = fs, trace = ?t2\<rparr> example_prompt
              (one_turn ''1'' ''SELEC 1'') False example_feedback 0 =
            (Inr (one_turn ''1'' ''SELECT 1;'', True), \<lparr>files = fs, trace = example_trace\<rparr>)"
    using c2 r2 by (subst retry_loop.simps) (simp add: generate_dialogue_def llm2)
  show ?thesis
    using c1 r1
    by (simp add: generate_and_validate_def example_prompt_built generate_dialogue_def llm1 out wr)
qed

lemma retry_loop_result:
  "retry_loop env w prompt d v fb n = (Inr (d', v'), w') \<Longrightarrow>
   files w' = files w
   \<and> ((w' = w \<and> d' = d \<and> v' = v)
      \<or> (\<exists>pre p fb'. llm_invoke env (trace w @ pre) p = Inr d'
            \<and> check_dialogue_sintax env (files w) (trace w @ pre @ [LlmCall p]) d' = (Inr (v', fb'), trace w')))"
proof (induction env w prompt d v fb n arbitrary: d' v' w' rule: retry_loop.induct)
  case (1 env w prompt dialogue is_valid feedback retries)
  show ?case
  proof (cases "\<not> is_valid \<and> retries < 3")
    case False
    with "1.prems" show ?thesis by (simp add: retry_loop.simps)
  next
    case True
    let ?p = "prompt @ feedback"
    let ?w1 = "w\<lparr>trace := trace w @ [LlmCall ?p]\<rparr>"
    have g: "generate_dialogue env w ?p = (llm_invoke env (trace w) ?p, ?w1)"
      by (simp add: generate_dialogue_def)
    from True "1.prems" g obtain dialogue' where d: "llm_invoke env (trace w) ?p = Inr dialogue'"
      by (cases "llm_invoke env (trace w) ?p") (auto simp: retry_loop.simps)
    obtain c tr2 where c: "check_dialogue_sintax env (files ?w1) (trace ?w1) dialogue' = (c, tr2)"
      by (cases "check_dialogue_sintax env (files ?w1) (trace ?w1) dialogue'") auto
    from True "1.prems" g d c obtain vf where vf: "c = Inr vf"
      by (cases c) (auto simp: retry_loop.simps)
    obtain v1 fb1 where vfb: "vf = (v1, fb1)" by (cases vf) auto
    let ?w2 = "?w1\<lparr>trace := tr2\<rparr>"
    from True "1.prems" g d c vf vfb
    have rec: "retry_loop env ?w2 prompt dialogue' v1 fb1 (retries + 1) = (Inr (d', v'), w')"
      by (simp add: retry_loop.simps)
    from c vf vfb obtain V where V: "tr2 = trace ?w1 @ V @ [Validated v1]"
      using check_trace_return by blast
    note ih = "1.IH" [OF True g [symmetric] d c [symmetric] vf vfb [symmetric] rec]
    then have fw: "files w' = files w" by simp
    from ih have "(w' = ?w2 \<and> d' = dialogue' \<and> v' = v1)
      \<or> (\<exists>pre p fb'. llm_invoke env (trace ?w2 @ pre) p = Inr d'
            \<and> check_dialogue_sintax env (files ?w2) (trace ?w2 @ pre @ [LlmCall p]) d' = (Inr (v', fb'), trace w'))"
      by blast
    then show ?thesis
    proof
      assume a: "w' = ?w2 \<and> d' = dialogue' \<and> v' = v1"
      have "llm_invoke env (trace w @ []) ?p = Inr d'" using d a by simp
      moreover have "check_dialogue_sintax env (files w) (trace w @ [] @ [LlmCall ?p]) d' = (Inr (v', fb1), trace w')"
        using c vf vfb a by simp
      ultimately show ?thesis using fw by blast
    next
      assume "\<exists>pre p fb'. llm_invoke env (trace ?w2 @ pre) p = Inr d'
            \<and> check_dialogue_sintax env (files ?w2) (trace ?w2 @ pre @ [LlmCall p]) d' = (Inr (v', fb'), trace w')"
      then obtain pre p fb' where b: "llm_invoke env (trace ?w2 @ pre) p = Inr d'"
        "check_dialogue_sintax env (files ?w2) (trace ?w2 @ pre @ [LlmCall p]) d' = (Inr (v', fb'), trace w')"
        by blast
      let ?pre = "[LlmCall ?p] @ V @ [Validated v1] @ pre"
      have "llm_invoke env (trace w @ ?pre) p = Inr d'" using b(1) V by simp
      moreover have "check_dialogue_sintax env (files w) (trace w @ ?pre @ [LlmCall p]) d' = (Inr (v', fb'), trace w')"
        using b(2) V by simp
      ultimately show ?thesis using fw by blast
    qed
  qed
qed

lemma generate_and_validate_result:
  assumes "generate_and_validate env w i c = (Inr d, w')"
  shows "\<exists>pre p valid fb.
           llm_invoke env (trace w @ pre) p = Inr d
         \<and> check_dialogue_sintax env (files w) (trace w @ pre @ [LlmCall p]) d = (Inr (valid, fb), trace w')
         \<and> files w' = (if valid then save_dialogue_to_file (file_write env (trace w')) (files w) d (output_file env)
                      else files w)"
proof -
  from assms obtain prompt where pr: "create_prompt_from_join_combination_data env i c = Inr prompt"
    by (cases "create_prompt_from_join_combination_data env i c") (auto simp: generate_and_validate_def)
  let ?w1 = "w\<lparr>trace := trace w @ [LlmCall prompt]\<rparr>"
  have g: "generate_dialogue env w prompt = (llm_invoke env (trace w) prompt, ?w1)"
    by (simp add: generate_dialogue_def)
  from assms pr g obtain d0 where d0: "llm_invoke env (trace w) prompt = Inr d0"
    by (cases "llm_invoke env (trace w) prompt") (auto simp: generate_and_validate_def)
  obtain c0 tr2 where c0: "check_dialogue_sintax env (files ?w1) (trace ?w1) d0 = (c0, tr2)"
    by (cases "check_dialogue_sintax env (files ?w1) (trace ?w1) d0") auto
  from assms pr g d0 c0 obtain vf where vf: "c0 = Inr vf"
    by (cases c0) (auto simp: generate_and_validate_def)
  obtain v0 fb0 where vfb: "vf = (v0, fb0)" by (cases vf) auto
  let ?w2 = "?w1\<lparr>trace := tr2\<rparr>"
  obtain rr w3 where rl: "retry_loop env ?w2 prompt d0 v0 fb0 0 = (rr, w3)"
    by (cases "retry_loop env ?w2 prompt d0 v0 fb0 0") auto
  from assms pr g d0 c0 vf vfb rl obtain valid where rr: "rr = Inr (d, valid)"
    and w': "w' = (if valid then w3\<lparr>files := save_dialogue_to_file (file_write env (trace w3)) (files w3) d (output_file env)\<rparr> else w3)"
    by (cases rr) (auto simp: generate_and_validate_def split: prod.splits)
  from retry_loop_result [OF rl [unfolded rr]]
  have f3: "files w3 = files w"
    and alt: "(w3 = ?w2 \<and> d = d0 \<and> valid = v0)
      \<or> (\<exists>pre p fb'. llm_invoke env (trace ?w2 @ pre) p = Inr d
            \<and> check_dialogue_sintax env (files ?w2) (trace ?w2 @ pre @ [LlmCall p]) d = (Inr (valid, fb'), trace w3))"
    by auto
  have tw: "trace w' = trace w3" using w' by simp
  have fw: "files w' = (if valid then save_dialogue_to_file (file_write env (trace w')) (files w) d (output_file env)
                      else files w)"
    using w' f3 by simp
  from c0 vf vfb obtain V where V: "tr2 = trace ?w1 @ V @ [Validated v0]"
    using check_trace_return by blast
  from alt show ?thesis
  proof
    assume a: "w3 = ?w2 \<and> d = d0 \<and> valid = v0"
    have "llm_invoke env (trace w @ []) prompt = Inr d" using d0 a by simp
    moreover have "check_dialogue_sintax env (files w) (trace w @ [] @ [LlmCall prompt]) d = (Inr (valid, fb0), trace w')"
      using c0 vf vfb a tw by simp
    ultimately show ?thesis using fw by blast
  next
    assume "\<exists>pre p fb'. llm_invoke env (trace ?w2 @ pre) p = Inr d
            \<and> check_dialogue_sintax env (files ?w2) (trace ?w2 @ pre @ [LlmCall p]) d = (Inr (valid, fb'), trace w3)"
    then obtain pre p fb' where b: "llm_invoke env (trace ?w2 @ pre) p = Inr d"
      "check_dialogue_sintax env (files ?w2) (trace ?w2 @ pre @ [LlmCall p]) d = (Inr (valid, fb'), trace w3)"
      by blast
    let ?pre = "[LlmCall prompt] @ V @ [Validated v0] @ pre"
    have "llm_invoke env (trace w @ ?pre) p = Inr d" using b(1) V by simp
    moreover have "check_dialogue_sintax env (files w) (trace w @ ?pre @ [LlmCall p]) d = (Inr (valid, fb'), trace w')"
      using b(2) V tw by simp
    ultimately show ?thesis using fw by blast
  qed
qed

lemma start_not_found:
  "dialogue_exists_in_dataset (files start) (str_nat (0 + 1)) (output_file example_env) = Inr False"
  by (simp add: start_def config_only_def dialogue_exists_in_dataset_def example_env_def)

lemma example_process_start:
  "process_combination example_env start 0 example_combination =
     (Inr (Some (one_turn ''1'' ''SELECT 1;'')),
      \<lparr>files = save_dialogue_to_file (\<lambda>path. Written) config_only (one_turn ''1'' ''SELECT 1;'') ''out.json'',
       trace = example_trace\<rparr>)"
proof -
  have "generate_and_validate example_env start 0 example_combination =
           (Inr (one_turn ''1'' ''SELECT 1;''),
            \<lparr>files = save_dialogue_to_file (\<lambda>path. Written) config_only (one_turn ''1'' ''SELECT 1;'') ''out.json'',
             trace = example_trace\<rparr>)"
    unfolding start_def by (rule example_generate) (simp add: config_only_def)
  then show ?thesis
    using start_not_found by (simp add: process_combination_def)
qed

text \<open>
  C3. For a combination that is not skipped, the events that processing it adds to the
  trace hold at most four calls of the model; every call but the first comes right
  after a validation that returned invalid; and when the prompt is built, the first
  event is the call with the prompt, followed by at most three more calls.
\<close>

theorem at_most_four_model_calls:
  assumes "dialogue_exists_in_dataset (files w) (str_nat (i + 1)) (output_file env) = Inr False"
  shows "\<exists>ext. trace (snd (process_combination env w i c)) = trace w @ ext
           \<and> length (llm_calls ext) \<le> 4
           \<and> well_paced ext
           \<and> (\<forall>prompt. create_prompt_from_join_combination_data env i c = Inr prompt \<longrightarrow>
                 (\<exists>rest. ext = LlmCall prompt # rest \<and> length (llm_calls rest) \<le> 3))"
proof -
  obtain r w' where gv: "generate_and_validate env w i c = (r, w')"
    by (cases "generate_and_validate env w i c") auto
  have "snd (process_combination env w i c) = w'"
    using assms gv by (simp add: process_combination_def split: sum.splits)
  with generate_and_validate_trace [OF gv] show ?thesis by auto
qed

theorem at_most_four_model_calls_witness:
  "dialogue_exists_in_dataset (files start) (str_nat (0 + 1)) (output_file example_env) = Inr False
   \<and> llm_calls (trace (snd (process_combination example_env start 0 example_combination)))
       = [example_prompt, example_prompt @ example_feedback]
   \<and> (\<exists>ext. trace (snd (process_combination example_env start 0 example_combination)) = trace start @ ext
           \<and> length (llm_calls ext) \<le> 4
           \<and> well_paced ext
           \<and> (\<forall>prompt. create_prompt_from_join_combination_data example_env 0 example_combination = Inr prompt \<longrightarrow>
                 (\<exists>rest. ext = LlmCall prompt # rest \<and> length (llm_calls rest) \<le> 3)))"
proof -
  have "llm_calls (trace (snd (process_combination example_env start 0 example_combination)))
       = [example_prompt, example_prompt @ example_feedback]"
    by (simp add: example_process_start example_trace_def)
  then show ?thesis
    using start_not_found at_most_four_model_calls [of start 0 example_env example_combination] by blast
qed

text \<open>
  C4, as the code has it. When processing a combination that is not skipped returns,
  it returns the answer \<open>d\<close> of the last call of the model, and the loop appends
  \<open>d\<close> to its list whatever the validation of \<open>d\<close> returned; \<open>save_dialogue_to_file\<close>
  is applied to \<open>d\<close> exactly when that validation returned valid, and otherwise the
  files are unchanged; and when a valid \<open>d\<close> is saved to a checkpoint file that
  satisfies \<open>store_ok\<close> and rewriting the file raises nothing, the dataset of the
  file is the dataset before with \<open>d\<close> at its end.
\<close>

theorem last_candidate_returned_and_saved_when_valid:
  assumes "dialogue_exists_in_dataset (files w) (str_nat (i + 1)) (output_file env) = Inr False"
    and "process_combination env w i c = (Inr r, w')"
  shows "\<exists>d pre p valid fb.
           r = Some d
         \<and> dataset_loop env w i (c # cs) acc = dataset_loop env w' (i + 1) cs (acc @ [d])
         \<and> llm_invoke env (trace w @ pre) p = Inr d
         \<and> check_dialogue_sintax env (files w) (trace w @ pre @ [LlmCall p]) d = (Inr (valid, fb), trace w')
         \<and> files w' = (if valid then save_dialogue_to_file (file_write env (trace w')) (files w) d (output_file env)
                      else files w)
         \<and> (valid \<and> store_ok (files w (output_file env))
              \<and> file_write env (trace w') (output_file env) = Written \<longrightarrow>
              stored (files w' (output_file env)) = stored (files w (output_file env)) @ [model_dump d])"
proof -
  from assms obtain d where gv: "generate_and_validate env w i c = (Inr d, w')" and r: "r = Some d"
    by (auto simp: process_combination_def split: sum.splits prod.splits)
  from generate_and_validate_result [OF gv]
  obtain pre p valid fb where x: "llm_invoke env (trace w @ pre) p = Inr d"
    "check_dialogue_sintax env (files w) (trace w @ pre @ [LlmCall p]) d = (Inr (valid, fb), trace w')"
    "files w' = (if valid then save_dialogue_to_file (file_write env (trace w')) (files w) d (output_file env)
                      else files w)"
    by blast
  have loop: "dataset_loop env w i (c # cs) acc = dataset_loop env w' (i + 1) cs (acc @ [d])"
    using assms(2) r by simp
  have st: "valid \<and> store_ok (files w (output_file env))
              \<and> file_write env (trace w') (output_file env) = Written \<longrightarrow>
              stored (files w' (output_file env)) = stored (files w (output_file env)) @ [model_dump d]"
    using x(3) stored_after_save [of "files w" "output_file env" "file_write env (trace w')" d] by simp
  show ?thesis using r loop x st by blast
qed

theorem last_candidate_returned_and_saved_when_valid_witness:
  "dialogue_exists_in_dataset (files start) (str_nat (0 + 1)) (output_file example_env) = Inr False
   \<and> process_combination example_env start 0 example_combination =
       (Inr (Some (one_turn ''1'' ''SELECT 1;'')),
        \<lparr>files = save_dialogue_to_file (\<lambda>path. Written) config_only (one_turn ''1'' ''SELECT 1;'') ''out.json'',
         trace = example_trace\<rparr>)
   \<and> store_ok (files start (output_file example_env))
   \<and> file_write example_env example_trace (output_file example_env) = Written
   \<and> stored (save_dialogue_to_file (\<lambda>path. Written) config_only (one_turn ''1'' ''SELECT 1;'') ''out.json'' ''out.json'')
       = [model_dump (one_turn ''1'' ''SELECT 1;'')]"
proof -
  let ?w' = "\<lparr>files = save_dialogue_to_file (\<lambda>path. Written) config_only (one_turn ''1'' ''SELECT 1;'') ''out.json'',
       trace = example_trace\<rparr>"
  from last_candidate_returned_and_saved_when_valid [OF start_not_found example_process_start, of "[]" "[]"]
  obtain d pre p valid fb where x: "Some (one_turn ''1'' ''SELECT 1;'') = Some d"
    "check_dialogue_sintax example_env (files start) (trace start @ pre @ [LlmCall p]) d = (Inr (valid, fb), trace ?w')"
    "valid \<and> store_ok (files start (output_file example_env))
       \<and> file_write example_env (trace ?w') (output_file example_env) = Written \<longrightarrow>
       stored (files ?w' (output_file example_env)) = stored (files start (output_file example_env)) @ [model_dump d]"
    by blast
  from x(2) obtain V where "trace ?w' = (trace start @ pre @ [LlmCall p]) @ V @ [Validated valid]"
    using check_trace_return by blast
  then have e: "example_trace = ((trace start @ pre @ [LlmCall p]) @ V) @ [Validated valid]" by simp
  have "last example_trace = Validated valid" by (subst e) (rule last_snoc)
  then have v: valid by (simp add: example_trace_def)
  have ok: "store_ok (files start (output_file example_env))"
    by (simp add: store_ok_def start_def config_only_def example_env_def)
  have "stored (files start (output_file example_env)) = []"
    by (simp add: stored_def start_def config_only_def example_env_def)
  moreover have wr: "file_write example_env example_trace (output_file example_env) = Written"
    by (simp add: example_env_def)
  ultimately have "stored (save_dialogue_to_file (\<lambda>path. Written) config_only (one_turn ''1'' ''SELECT 1;'') ''out.json'' ''out.json'')
       = [model_dump (one_turn ''1'' ''SELECT 1;'')]"
    using x(1,3) v ok by (simp add: example_env_def)
  then show ?thesis using start_not_found example_process_start ok wr by blast
qed

text \<open>
  C4 as stated fails: with the checkpoint file \<open>{"dataset": {}}\<close> the combination
  is not skipped, its last candidate is valid and is returned, and the checkpoint
  file is as before: the candidate is not persisted.
\<close>

theorem valid_candidate_not_persisted_counterexample:
  "fst (process_combination example_env broken_start 0 example_combination) = Inr (Some (one_turn ''1'' ''SELECT 1;''))
   \<and> last (trace (snd (process_combination example_env broken_start 0 example_combination))) = Validated True
   \<and> files (snd (process_combination example_env broken_start 0 example_combination)) ''out.json''
       = Some (Doc (JObj [(''dataset'', JObj [])]))"
proof -
  let ?fs = "files broken_start"
  have nf: "dialogue_exists_in_dataset ?fs (str_nat (0 + 1)) (output_file example_env) = Inr False"
    by (simp add: broken_start_def broken_store_def dialogue_exists_in_dataset_def example_env_def)
  have "save_attempt (\<lambda>path. Written) ?fs (one_turn ''1'' ''SELECT 1;'') ''out.json'' = (Some AttributeError, ?fs)"
    by (simp add: save_attempt_def load_existing_def append_to_dataset_def broken_start_def broken_store_def)
  then have sv: "save_dialogue_to_file (\<lambda>path. Written) ?fs (one_turn ''1'' ''SELECT 1;'') ''out.json'' = ?fs"
    by (simp add: save_dialogue_to_file_def)
  have "generate_and_validate example_env \<lparr>files = ?fs, trace = []\<rparr> 0 example_combination =
           (Inr (one_turn ''1'' ''SELECT 1;''),
            \<lparr>files = save_dialogue_to_file (\<lambda>path. Written) ?fs (one_turn ''1'' ''SELECT 1;'') ''out.json'',
             trace = example_trace\<rparr>)"
    by (rule example_generate) (simp add: broken_start_def)
  moreover have "\<lparr>files = ?fs, trace = []\<rparr> = broken_start" by (simp add: broken_start_def)
  ultimately have "process_combination example_env broken_start 0 example_combination =
      (Inr (Some (one_turn ''1'' ''SELECT 1;'')), \<lparr>files = ?fs, trace = example_trace\<rparr>)"
    using nf sv by (simp add: process_combination_def)
  then show ?thesis by (simp add: example_trace_def broken_start_def broken_store_def)
qed

section \<open>Properties of a whole run\<close>

















lemma example_not_found: "\<not> found example_env (0, example_combination, start)"
  using start_not_found by (simp add: found_def)











end
